theory Spec2Isabelle
  imports Complex_Main "HOL-Library.AList" "HOL-Library.List_Lexorder" "HOL-Library.Char_ord"
begin

section \<open>Data model (types.ts)\<close>

text \<open>
  Times and timestamps are JavaScript numbers holding integral milliseconds; they are
  modelled as \<open>int\<close>. JavaScript objects used as dictionaries keep their keys in
  insertion order, so they are association lists: \<open>map_of\<close> reads a key,
  \<open>AList.update\<close> overwrites an existing key in place and appends a new one.
\<close>

record NotificationState =
  sent80 :: bool
  sent100 :: bool

record SiteRecord =
  time :: int
  favicon :: string
  lastVisited :: int
  visitCount :: int
  notifications :: "NotificationState option"

type_synonym DailyData = "(string \<times> SiteRecord) list"

record Limit =
  timeLimit :: int
  notify80 :: bool
  notify100 :: bool
  blockOnLimit :: bool

record Settings =
  trackingDelaySeconds :: int
  theme :: string

text \<open>
  The flat key-value store \<open>chrome.storage.local\<close>. The keys \<open>whitelist\<close>,
  \<open>settings\<close>, \<open>limits\<close>, \<open>_currentUrl\<close>, \<open>_startTime\<close> and \<open>_favicon\<close> are
  fields (\<open>None\<close> when the key is absent); every other key written by the program is a
  day key, kept in \<open>days\<close>.
\<close>

record StorageData =
  whitelist :: "string list option"
  settings :: "Settings option"
  limits :: "(string \<times> Limit) list option"
  days :: "(string \<times> DailyData) list"
  st_currentUrl :: "string option"
  st_startTime :: "int option"
  st_favicon :: "string option"

section \<open>The host environment\<close>

text \<open>
  What the browser supplies to one handler run: the clock reading \<open>Date.now()\<close>, the
  local calendar date of \<open>new Date()\<close> as a day number (days since 1970-01-01 in the
  proleptic Gregorian calendar), the \<open>hostname\<close> of \<open>new URL(url)\<close> (\<open>None\<close> when the
  constructor throws), the first tab returned by \<open>chrome.tabs.query\<close>, what
  \<open>Object.prototype\<close> holds under a name, and the local calendar step of \<open>setDate\<close>.
  The successive clock readings of one handler run are taken to be the same instant.
\<close>

record Tab =
  tab_id :: "int option"
  tab_url :: "string option"

text \<open>
  What \<open>Object.prototype\<close> holds under a name when the run starts: nothing (or a
  falsy value), an object or function (as under \<open>constructor\<close> and \<open>__proto__\<close>), or a
  truthy string or number (which only an earlier write of the program through such a
  name can have put there).
\<close>

datatype Member = NoMember | ObjectMember | PrimitiveMember

text \<open>
  \<open>setDate env t k\<close> is the instant of a \<open>Date\<close> of instant \<open>t\<close> after
  \<open>d.setDate(d.getDate() + k)\<close>: \<open>k\<close> days later on the local calendar, at the same
  local time of day.
\<close>

record Env =
  now :: int
  localDay :: int
  hostname :: "string \<Rightarrow> string option"
  activeTab :: "Tab option"
  protoMember :: "string \<Rightarrow> Member"
  setDate :: "int \<Rightarrow> int \<Rightarrow> int"

subsection \<open>The calendar of \<open>Date\<close>\<close>

text \<open>
  Day number of a civil date and back, as \<open>Date\<close> computes them. Months count from 1
  here; \<open>getMonth() + 1\<close> is the month of \<open>civilFromDays\<close>.
\<close>

definition daysFromCivil :: "int \<Rightarrow> int \<Rightarrow> int \<Rightarrow> int" where
  "daysFromCivil y m d =
     (let y1 = (if m \<le> 2 then y - 1 else y);
          era = y1 div 400;
          yoe = y1 - era * 400;
          doy = (153 * (if 2 < m then m - 3 else m + 9) + 2) div 5 + d - 1;
          doe = yoe * 365 + yoe div 4 - yoe div 100 + doy
      in era * 146097 + doe - 719468)"

definition civilFromDays :: "int \<Rightarrow> int \<times> int \<times> int" where
  "civilFromDays z =
     (let z1 = z + 719468;
          era = z1 div 146097;
          doe = z1 - era * 146097;
          yoe = (doe - doe div 1460 + doe div 36524 - doe div 146096) div 365;
          doy = doe - (365 * yoe + yoe div 4 - yoe div 100);
          mp = (5 * doy + 2) div 153;
          d = doy - (153 * mp + 2) div 5 + 1;
          m = (if mp < 10 then mp + 3 else mp - 9);
          y = yoe + era * 400 + (if m \<le> 2 then 1 else 0)
      in (y, m, d))"

text \<open>\<open>String(n)\<close> of a natural number and \<open>padStart(2, "0")\<close>.\<close>

definition digitChar :: "nat \<Rightarrow> char" where
  "digitChar k = ''0123456789'' ! k"

fun decimal :: "nat \<Rightarrow> string" where
  "decimal n = (if n < 10 then [digitChar n] else decimal (n div 10) @ [digitChar (n mod 10)])"

declare decimal.simps [simp del]

definition padStart2 :: "string \<Rightarrow> string" where
  "padStart2 s = replicate (2 - length s) CHR ''0'' @ s"

text \<open>The template \<open>`${year}-${month}-${day}`\<close> of a day number's civil date.\<close>

definition dateKeyOfDay :: "int \<Rightarrow> string" where
  "dateKeyOfDay z =
     (case civilFromDays z of
        (y, m, d) \<Rightarrow> decimal (nat y) @ ''-'' @ padStart2 (decimal (nat m)) @ ''-''
                     @ padStart2 (decimal (nat d)))"

definition getTodayKey :: "Env \<Rightarrow> string" where
  "getTodayKey env = dateKeyOfDay (localDay env)"

text \<open>The test \<open>key.match(/^\d{4}-\d{2}-\d{2}$/)\<close>.\<close>

definition isDigit :: "char \<Rightarrow> bool" where
  "isDigit c = (48 \<le> (of_char c :: nat) \<and> (of_char c :: nat) \<le> 57)"

definition isDateKey :: "string \<Rightarrow> bool" where
  "isDateKey key =
     (length key = 10 \<and> list_all isDigit (take 4 key) \<and> key ! 4 = CHR ''-''
      \<and> list_all isDigit (take 2 (drop 5 key)) \<and> key ! 7 = CHR ''-''
      \<and> list_all isDigit (drop 8 key))"

definition numberOf :: "string \<Rightarrow> int" where
  "numberOf ds = foldl (\<lambda>a c. a * 10 + (int (of_char c) - 48)) 0 ds"

text \<open>
  \<open>new Date(key).getTime()\<close> for a key of the date pattern: the date-only form is read
  as midnight UTC. \<open>None\<close> stands for \<open>NaN\<close> (an invalid date). As in V8, a month outside
  1 to 12 or a day outside 1 to 31 is invalid, and a day past the end of its month runs
  over into the next month.
\<close>

definition dateKeyTime :: "string \<Rightarrow> int option" where
  "dateKeyTime key =
     (if \<not> isDateKey key then None
      else
        let y = numberOf (take 4 key); m = numberOf (take 2 (drop 5 key));
            d = numberOf (drop 8 key)
        in if 1 \<le> m \<and> m \<le> 12 \<and> 1 \<le> d \<and> d \<le> 31
           then Some ((daysFromCivil y m 1 + d - 1) * 86400000)
           else None)"

section \<open>Storage utilities (storage.ts)\<close>

definition DEFAULT_SETTINGS :: Settings where
  "DEFAULT_SETTINGS = \<lparr>trackingDelaySeconds = 15, theme = ''blue-500''\<rparr>"

definition getSettings :: "StorageData \<Rightarrow> Settings" where
  "getSettings s = (case settings s of None \<Rightarrow> DEFAULT_SETTINGS | Some x \<Rightarrow> x)"

text \<open>\<open>{ ...current, ...settings }\<close>: the fields present in the argument win.\<close>

definition setSettings :: "int option \<Rightarrow> string option \<Rightarrow> StorageData \<Rightarrow> StorageData" where
  "setSettings delay th s =
     (let current = getSettings s;
          updated = \<lparr>trackingDelaySeconds =
                       (case delay of None \<Rightarrow> trackingDelaySeconds current | Some d \<Rightarrow> d),
                     theme = (case th of None \<Rightarrow> theme current | Some t \<Rightarrow> t)\<rparr>
      in s\<lparr>settings := Some updated\<rparr>)"

definition whitelistOf :: "StorageData \<Rightarrow> string list" where
  "whitelistOf s = (case whitelist s of None \<Rightarrow> [] | Some wl \<Rightarrow> wl)"

definition dayData :: "StorageData \<Rightarrow> string \<Rightarrow> DailyData" where
  "dayData s key = (case map_of (days s) key of None \<Rightarrow> [] | Some d \<Rightarrow> d)"

definition setDay :: "string \<Rightarrow> DailyData \<Rightarrow> StorageData \<Rightarrow> StorageData" where
  "setDay key d s = s\<lparr>days := AList.update key d (days s)\<rparr>"

text \<open>
  Reading \<open>obj[name]\<close> on a day record. A day record is a plain object, so the read
  gives the record's own property when it has one and otherwise what
  \<open>Object.prototype\<close> holds under the name: for a domain such as \<open>constructor\<close> or
  \<open>__proto__\<close> the test \<open>!todayData[domain]\<close> sees the inherited member.
\<close>

datatype Lookup = Undefined | Own SiteRecord | InheritedObject | InheritedPrimitive

definition lookupSite :: "Env \<Rightarrow> DailyData \<Rightarrow> string \<Rightarrow> Lookup" where
  "lookupSite env obj name =
     (case map_of obj name of
        Some r \<Rightarrow> Own r
      | None \<Rightarrow>
          (case protoMember env name of
             NoMember \<Rightarrow> Undefined
           | ObjectMember \<Rightarrow> InheritedObject
           | PrimitiveMember \<Rightarrow> InheritedPrimitive))"

text \<open>
  The three updates of \<open>saveTime\<close> on the record it found or created:
  \<open>time += duration\<close>, \<open>lastVisited = Date.now()\<close>, \<open>if (favicon) favicon = favicon\<close>.
\<close>

definition timeAdded :: "Env \<Rightarrow> int \<Rightarrow> string \<Rightarrow> SiteRecord \<Rightarrow> SiteRecord" where
  "timeAdded env duration fav site0 =
     (let site1 = site0\<lparr>time := time site0 + duration, lastVisited := now env\<rparr>
      in (if fav \<noteq> [] then site1\<lparr>favicon := fav\<rparr> else site1))"

text \<open>
  \<open>saveTime\<close>. When the domain reads an inherited object, the three updates land on
  that object, outside the store, and \<open>setStorageData\<close> writes the day record as it was
  read. When it reads an inherited string or number, the first update throws a TypeError
  (module code is strict) and nothing is written: \<open>saveTimeThrows\<close>.
\<close>

definition saveTime :: "Env \<Rightarrow> string \<Rightarrow> int \<Rightarrow> string \<Rightarrow> StorageData \<Rightarrow> StorageData" where
  "saveTime env domain duration fav s =
     (if domain = [] \<or> duration \<le> 0 then s
      else if domain \<in> set (whitelistOf s) then s
      else
        let todayData = dayData s (getTodayKey env) in
        (case lookupSite env todayData domain of
           Undefined \<Rightarrow>
             setDay (getTodayKey env)
               (AList.update domain
                  (timeAdded env duration fav
                     \<lparr>time = 0, favicon = fav, lastVisited = now env,
                      visitCount = 0, notifications = None\<rparr>) todayData) s
         | Own r \<Rightarrow>
             setDay (getTodayKey env)
               (AList.update domain (timeAdded env duration fav r) todayData) s
         | InheritedObject \<Rightarrow> setDay (getTodayKey env) todayData s
         | InheritedPrimitive \<Rightarrow> s))"

definition saveTimeThrows :: "Env \<Rightarrow> string \<Rightarrow> int \<Rightarrow> StorageData \<Rightarrow> bool" where
  "saveTimeThrows env domain duration s =
     (domain \<noteq> [] \<and> 0 < duration \<and> domain \<notin> set (whitelistOf s)
      \<and> lookupSite env (dayData s (getTodayKey env)) domain = InheritedPrimitive)"

text \<open>
  The three updates of \<open>incrementVisitCount\<close> on a record it found:
  \<open>visitCount = (visitCount || 0) + 1\<close>, \<open>lastVisited = Date.now()\<close>,
  \<open>if (favicon) favicon = favicon\<close>.
\<close>

definition visitAdded :: "Env \<Rightarrow> string \<Rightarrow> SiteRecord \<Rightarrow> SiteRecord" where
  "visitAdded env fav r =
     (let r1 = r\<lparr>visitCount := visitCount r + 1, lastVisited := now env\<rparr>
      in (if fav \<noteq> [] then r1\<lparr>favicon := fav\<rparr> else r1))"

text \<open>\<open>incrementVisitCount\<close>, with the same two cases of an inherited member.\<close>

definition incrementVisitCount :: "Env \<Rightarrow> string \<Rightarrow> string \<Rightarrow> StorageData \<Rightarrow> StorageData" where
  "incrementVisitCount env domain fav s =
     (if domain \<in> set (whitelistOf s) then s
      else
        let todayData = dayData s (getTodayKey env) in
        (case lookupSite env todayData domain of
           Undefined \<Rightarrow>
             setDay (getTodayKey env)
               (AList.update domain
                  \<lparr>time = 0, favicon = fav, lastVisited = now env,
                   visitCount = 1, notifications = None\<rparr> todayData) s
         | Own r \<Rightarrow>
             setDay (getTodayKey env) (AList.update domain (visitAdded env fav r) todayData) s
         | InheritedObject \<Rightarrow> setDay (getTodayKey env) todayData s
         | InheritedPrimitive \<Rightarrow> s))"

definition incrementVisitCountThrows :: "Env \<Rightarrow> string \<Rightarrow> StorageData \<Rightarrow> bool" where
  "incrementVisitCountThrows env domain s =
     (domain \<notin> set (whitelistOf s)
      \<and> lookupSite env (dayData s (getTodayKey env)) domain = InheritedPrimitive)"

text \<open>The record of a domain in one day of the store, if there is one.\<close>

definition siteOn :: "StorageData \<Rightarrow> string \<Rightarrow> string \<Rightarrow> SiteRecord option" where
  "siteOn s key domain = map_of (dayData s key) domain"

section \<open>Limits and daily usage\<close>

text \<open>
  The service worker imports \<open>getLimit\<close>, \<open>getDailyUsage\<close> and
  \<open>updateNotificationState\<close> from the storage utilities; their bodies are not part of
  the available sources, so the three definitions below follow the spec.
\<close>

record DailyUsage =
  usage_time :: int
  usage_notifications :: NotificationState

definition noNotifications :: NotificationState where
  "noNotifications = \<lparr>sent80 = False, sent100 = False\<rparr>"

text \<open>
  Modelled from the spec: the body of \<open>getLimit\<close> is missing. The spec gives the
  \<open>limits\<close> key as a map from domain to Limit, "absence of an entry => unlimited".
\<close>

definition getLimit :: "string \<Rightarrow> StorageData \<Rightarrow> Limit option" where
  "getLimit domain s = (case limits s of None \<Rightarrow> None | Some m \<Rightarrow> map_of m domain)"

text \<open>
  Modelled from the spec: the body of \<open>getDailyUsage\<close> is missing. The Limit Evaluator
  "reads today's accumulated time" and the notification flags of the domain's
  DailyRecord; the default-record constants are \<open>time = 0\<close> and
  \<open>notifications = {false, false}\<close>.
\<close>

definition getDailyUsage :: "Env \<Rightarrow> string \<Rightarrow> StorageData \<Rightarrow> DailyUsage" where
  "getDailyUsage env domain s =
     (case siteOn s (getTodayKey env) domain of
        None \<Rightarrow> \<lparr>usage_time = 0, usage_notifications = noNotifications\<rparr>
      | Some r \<Rightarrow> \<lparr>usage_time = time r,
                   usage_notifications =
                     (case notifications r of None \<Rightarrow> noNotifications | Some n \<Rightarrow> n)\<rparr>)"

text \<open>
  Modelled from the spec: the body of \<open>updateNotificationState\<close> is missing. The Limit
  Evaluator "marks \<open>sent80 = true\<close>" (or \<open>sent100\<close>) on today's DailyRecord of the
  domain, a get-or-insert-default on the per-day mapping with the default constants
  \<open>time = 0\<close>, \<open>visitCount = 0\<close>, \<open>notifications = {false, false}\<close>. The argument
  is a \<open>Partial<NotificationState>\<close>: the flags it carries overwrite the stored ones.
  The favicon and \<open>lastVisited\<close> of an inserted default are not given by the spec; they
  are the empty string and the current clock reading here.
\<close>

definition updateNotificationState ::
  "Env \<Rightarrow> string \<Rightarrow> bool option \<Rightarrow> bool option \<Rightarrow> StorageData \<Rightarrow> StorageData" where
  "updateNotificationState env domain u80 u100 s =
     (let todayData = dayData s (getTodayKey env);
          site = (case map_of todayData domain of
                    None \<Rightarrow> \<lparr>time = 0, favicon = [], lastVisited = now env,
                              visitCount = 0, notifications = None\<rparr>
                  | Some r \<Rightarrow> r);
          old = (case notifications site of None \<Rightarrow> noNotifications | Some n \<Rightarrow> n);
          new = \<lparr>sent80 = (case u80 of None \<Rightarrow> sent80 old | Some b \<Rightarrow> b),
                 sent100 = (case u100 of None \<Rightarrow> sent100 old | Some b \<Rightarrow> b)\<rparr>
      in setDay (getTodayKey env)
           (AList.update domain (site\<lparr>notifications := Some new\<rparr>) todayData) s)"

section \<open>The background service worker\<close>

text \<open>
  What the worker sends out: the two notifications of \<open>chrome.notifications.create\<close>
  (80% and 100% of the daily limit of a domain) and \<open>chrome.tabs.update\<close> of a tab to the
  block page \<open>blocked.html?domain=...&limit=...\<close>.
\<close>

datatype Effect =
    Notify80 string
  | Notify100 string
  | RedirectBlocked int string int

text \<open>The module variable \<open>_lastVisit\<close>.\<close>

record LastVisit =
  lv_domain :: string
  lv_timestamp :: int

text \<open>
  The state the worker runs on: the store, \<open>_lastVisit\<close>, and the log of what was sent
  out, oldest first. Each \<open>async\<close> function is one state transformer: its awaits run in
  program order and no other handler runs in between.
\<close>

record World =
  store :: StorageData
  lastVisit :: LastVisit
  effects :: "Effect list"

definition emit :: "Effect \<Rightarrow> World \<Rightarrow> World" where
  "emit e w = w\<lparr>effects := effects w @ [e]\<rparr>"

definition onStore :: "(StorageData \<Rightarrow> StorageData) \<Rightarrow> World \<Rightarrow> World" where
  "onStore f w = w\<lparr>store := f (store w)\<rparr>"

definition blockedPrefixes :: "string list" where
  "blockedPrefixes = [''chrome://'', ''chrome-extension://'', ''about:'', ''edge://'']"

definition startsWith :: "string \<Rightarrow> string \<Rightarrow> bool" where
  "startsWith url p = (take (length p) url = p)"

definition getDomain :: "Env \<Rightarrow> string \<Rightarrow> string option" where
  "getDomain env url =
     (if url = [] then None
      else if (\<exists>p \<in> set blockedPrefixes. startsWith url p) then None
      else (case hostname env url of
              None \<Rightarrow> None
            | Some h \<Rightarrow> Some (if startsWith h ''www.'' then drop 4 h else h)))"

definition getFavicon :: "Env \<Rightarrow> string \<Rightarrow> string" where
  "getFavicon env url =
     (case hostname env url of
        None \<Rightarrow> []
      | Some h \<Rightarrow> ''https://www.google.com/s2/favicons?domain='' @ h @ ''&sz=64'')"

text \<open>JavaScript truthiness of an optional string and of an optional number.\<close>

definition truthyStr :: "string option \<Rightarrow> bool" where
  "truthyStr x = (case x of None \<Rightarrow> False | Some v \<Rightarrow> v \<noteq> [])"

definition truthyNum :: "int option \<Rightarrow> bool" where
  "truthyNum x = (case x of None \<Rightarrow> False | Some v \<Rightarrow> v \<noteq> 0)"

text \<open>
  The comparison \<open>totalTime >= limit.timeLimit * 0.8\<close> is taken over the reals: for
  integral milliseconds the floating-point product decides it the same way.
\<close>

definition is80Percent :: "int \<Rightarrow> Limit \<Rightarrow> bool" where
  "is80Percent totalTime limit = (real_of_int (timeLimit limit) * 0.8 \<le> real_of_int totalTime)"

definition is100Percent :: "int \<Rightarrow> Limit \<Rightarrow> bool" where
  "is100Percent totalTime limit = (timeLimit limit \<le> totalTime)"

definition fires80 :: "Limit \<Rightarrow> DailyUsage \<Rightarrow> int \<Rightarrow> bool" where
  "fires80 limit usage totalTime =
     (notify80 limit \<and> is80Percent totalTime limit
      \<and> \<not> sent80 (usage_notifications usage) \<and> \<not> is100Percent totalTime limit)"

definition fires100 :: "Limit \<Rightarrow> DailyUsage \<Rightarrow> int \<Rightarrow> bool" where
  "fires100 limit usage totalTime =
     (notify100 limit \<and> is100Percent totalTime limit \<and> \<not> sent100 (usage_notifications usage))"

definition blockTab :: "Env \<Rightarrow> string \<Rightarrow> Limit \<Rightarrow> World \<Rightarrow> World" where
  "blockTab env domain limit w =
     (case activeTab env of
        None \<Rightarrow> w
      | Some tab \<Rightarrow>
          (case (tab_id tab, tab_url tab) of
             (Some i, Some u) \<Rightarrow>
               if i \<noteq> 0 \<and> u \<noteq> [] \<and> getDomain env u = Some domain
               then emit (RedirectBlocked i domain (timeLimit limit)) w
               else w
           | _ \<Rightarrow> w))"

definition checkLimits :: "Env \<Rightarrow> string \<Rightarrow> int \<Rightarrow> World \<Rightarrow> World" where
  "checkLimits env domain timeToAdd w =
     (case getLimit domain (store w) of
        None \<Rightarrow> w
      | Some limit \<Rightarrow>
          let usage = getDailyUsage env domain (store w);
              totalTime = usage_time usage + timeToAdd;
              w1 = (if fires80 limit usage totalTime
                    then onStore (updateNotificationState env domain (Some True) None)
                           (emit (Notify80 domain) w)
                    else w);
              w2 = (if fires100 limit usage totalTime
                    then onStore (updateNotificationState env domain None (Some True))
                           (emit (Notify100 domain) w1)
                    else w1)
          in (if blockOnLimit limit \<and> is100Percent totalTime limit
              then blockTab env domain limit w2 else w2))"

text \<open>
  \<open>commitTime\<close>. When \<open>saveTime\<close> throws, the commit is rejected before the limit
  check and its caller stops: \<open>commitTimeThrows\<close>.
\<close>

definition commitTime :: "Env \<Rightarrow> World \<Rightarrow> World" where
  "commitTime env w =
     (let data = store w in
      if \<not> truthyStr (st_currentUrl data) \<or> \<not> truthyNum (st_startTime data) then w
      else
        let duration = now env - the (st_startTime data);
            domain = getDomain env (the (st_currentUrl data));
            minDuration = trackingDelaySeconds (getSettings data) * 1000
        in if truthyStr domain \<and> minDuration \<le> duration \<and> duration \<le> 300000
           then (if saveTimeThrows env (the domain) duration data then w
                 else checkLimits env (the domain) 0
                        (onStore (saveTime env (the domain) duration
                                    (case st_favicon data of None \<Rightarrow> [] | Some f \<Rightarrow> f)) w))
           else w)"

definition commitTimeThrows :: "Env \<Rightarrow> World \<Rightarrow> bool" where
  "commitTimeThrows env w =
     (let data = store w in
      truthyStr (st_currentUrl data) \<and> truthyNum (st_startTime data)
      \<and> (let duration = now env - the (st_startTime data);
              domain = getDomain env (the (st_currentUrl data));
              minDuration = trackingDelaySeconds (getSettings data) * 1000
          in truthyStr domain \<and> minDuration \<le> duration \<and> duration \<le> 300000
             \<and> saveTimeThrows env (the domain) duration data))"

definition stopTracking :: "World \<Rightarrow> World" where
  "stopTracking w =
     onStore (\<lambda>s. s\<lparr>st_currentUrl := None, st_startTime := None, st_favicon := None\<rparr>) w"

text \<open>
  The block on navigation: \<open>Some\<close> of the redirected world when the domain has a blocking
  limit that today's usage has reached and an active tab with an id was found (the
  function then returns), \<open>None\<close> when \<open>startTracking\<close> goes on.
\<close>

definition blockedOnNavigation :: "Env \<Rightarrow> string \<Rightarrow> World \<Rightarrow> World option" where
  "blockedOnNavigation env domain w =
     (case getLimit domain (store w) of
        None \<Rightarrow> None
      | Some limit \<Rightarrow>
          if blockOnLimit limit
             \<and> timeLimit limit \<le> usage_time (getDailyUsage env domain (store w))
          then (case activeTab env of
                  None \<Rightarrow> None
                | Some tab \<Rightarrow>
                    if truthyNum (tab_id tab)
                    then Some (emit (RedirectBlocked (the (tab_id tab)) domain (timeLimit limit)) w)
                    else None)
          else None)"

text \<open>The \<open>chrome.storage.local.set\<close> that ends \<open>startTracking\<close>.\<close>

definition openSession :: "Env \<Rightarrow> string \<Rightarrow> StorageData \<Rightarrow> StorageData" where
  "openSession env url s =
     s\<lparr>st_currentUrl := Some url, st_startTime := Some (now env),
       st_favicon := Some (getFavicon env url)\<rparr>"

definition isDuplicate :: "Env \<Rightarrow> string \<Rightarrow> World \<Rightarrow> bool" where
  "isDuplicate env domain w =
     (domain = lv_domain (lastVisit w) \<and> now env - lv_timestamp (lastVisit w) < 5000)"

text \<open>
  \<open>startTracking\<close>. When \<open>incrementVisitCount\<close> throws, the function is rejected
  there: neither \<open>_lastVisit\<close> nor the tracking state is written.
\<close>

definition startTracking :: "Env \<Rightarrow> string \<Rightarrow> bool \<Rightarrow> World \<Rightarrow> World" where
  "startTracking env url trackVisit w =
     (let domain = getDomain env url in
      if truthyStr domain then
        (case blockedOnNavigation env (the domain) w of
           Some w' \<Rightarrow> w'
         | None \<Rightarrow>
             if trackVisit \<and> \<not> isDuplicate env (the domain) w
             then (if incrementVisitCountThrows env (the domain) (store w) then w
                   else onStore (openSession env url)
                          ((onStore (incrementVisitCount env (the domain) (getFavicon env url)) w)
                             \<lparr>lastVisit := \<lparr>lv_domain = the domain, lv_timestamp = now env\<rparr>\<rparr>))
             else onStore (openSession env url) w)
      else stopTracking w)"

text \<open>
  The handlers of \<open>chrome.tabs.onUpdated\<close> (status complete, active tab with a URL),
  of \<open>chrome.tabs.onActivated\<close> (the tab was found and has a URL) and of
  \<open>onHistoryStateUpdated\<close> (main frame of the active tab) all run this:
  \<open>await commitTime(); await startTracking(url, true)\<close>. A rejected commit ends the
  handler.
\<close>

definition onNavigate :: "Env \<Rightarrow> string \<Rightarrow> World \<Rightarrow> World" where
  "onNavigate env url w =
     (if commitTimeThrows env w then w else startTracking env url True (commitTime env w))"

text \<open>A session is open when \<open>commitTime\<close> would not return at its first test.\<close>

definition sessionOpen :: "StorageData \<Rightarrow> bool" where
  "sessionOpen s = (truthyStr (st_currentUrl s) \<and> truthyNum (st_startTime s))"

section \<open>Aggregation (storage.ts)\<close>


text \<open>
  \<open>Math.ceil(a / b)\<close> for integral \<open>a\<close> and \<open>b\<close>, the quotient taken over the reals: for
  integral milliseconds the floating-point quotient has the same ceiling.
\<close>

definition ceilDiv :: "int \<Rightarrow> int \<Rightarrow> int" where
  "ceilDiv a b = \<lceil>real_of_int a / real_of_int b\<rceil>"









section \<open>Site analysis\<close>





text \<open>
  The outcome of a report: \<open>null\<close>, a value computed from the records of the store,
  or \<open>Garbled\<close>: the test \<open>dayData[domain]\<close> read an inherited member of
  \<open>Object.prototype\<close>, whose fields \<open>time\<close>, \<open>visitCount\<close> and \<open>lastVisited\<close> are not
  records of the store (they are \<open>undefined\<close> unless the program wrote them there), and the
  code returns the totals computed with them. The model describes that value no further.
\<close>

datatype 'a Result = Null | Garbled | Result 'a








section \<open>Trend metrics\<close>

text \<open>
  \<open>getTrendMetrics\<close> is given here the instants \<open>start\<close> and \<open>end\<close> of
  \<open>new Date(startDate)\<close> and \<open>new Date(endDate)\<close>, for two strings that are valid dates.
\<close>

text \<open>The variables that the loop of \<open>getTrendMetrics\<close> updates.\<close>

record TrendAcc =
  tr_activeDays :: int
  tr_totalTime :: int
  tr_totalVisits :: int
  tr_maxDailyTime :: int
  tr_maxDailyVisits :: int
  tr_dailyTimes :: "int list"
  tr_dailyVisits :: "int list"
  tr_prevTotalTime :: int
  tr_prevTotalVisits :: int
  tr_garbled :: bool

record TrendMetrics =
  tm_activeDays :: int
  tm_totalDays :: int
  tm_maxDailyTime :: int
  tm_avgDailyTime :: real
  tm_maxDailyVisits :: int
  tm_avgDailyVisits :: real
  tm_totalTime :: int
  tm_totalVisits :: int
  tm_timeChange :: real
  tm_visitsChange :: real

text \<open>\<open>keyDate >= lo && keyDate <= hi\<close>; false for an invalid date.\<close>

definition inWindow :: "int option \<Rightarrow> int \<Rightarrow> int \<Rightarrow> bool" where
  "inWindow keyDate lo hi = (case keyDate of None \<Rightarrow> False | Some t \<Rightarrow> lo \<le> t \<and> t \<le> hi)"

text \<open>The two blocks of the loop body on a record of the store.\<close>

definition trendAdd :: "int \<Rightarrow> int \<Rightarrow> int \<Rightarrow> int \<Rightarrow> TrendAcc \<Rightarrow> string \<Rightarrow> SiteRecord \<Rightarrow> TrendAcc" where
  "trendAdd start end prevStart prevEnd acc key siteData =
     (let keyDate = dateKeyTime key;
          acc1 = (if inWindow keyDate start end
                  then acc\<lparr>tr_activeDays := tr_activeDays acc + 1,
                           tr_totalTime := tr_totalTime acc + time siteData,
                           tr_totalVisits := tr_totalVisits acc + visitCount siteData,
                           tr_dailyTimes := tr_dailyTimes acc @ [time siteData],
                           tr_dailyVisits := tr_dailyVisits acc @ [visitCount siteData],
                           tr_maxDailyTime :=
                             (if tr_maxDailyTime acc < time siteData then time siteData
                              else tr_maxDailyTime acc),
                           tr_maxDailyVisits :=
                             (if tr_maxDailyVisits acc < visitCount siteData
                              then visitCount siteData else tr_maxDailyVisits acc)\<rparr>
                  else acc)
      in (if inWindow keyDate prevStart prevEnd
          then acc1\<lparr>tr_prevTotalTime := tr_prevTotalTime acc1 + time siteData,
                    tr_prevTotalVisits := tr_prevTotalVisits acc1 + visitCount siteData\<rparr>
          else acc1))"

text \<open>
  The loop body. An inherited member read on a day of either window puts its fields
  into the totals; on a day of neither window it changes nothing.
\<close>

definition trendGarble :: "int \<Rightarrow> int \<Rightarrow> int \<Rightarrow> int \<Rightarrow> TrendAcc \<Rightarrow> string \<Rightarrow> TrendAcc" where
  "trendGarble start end prevStart prevEnd acc key =
     (if inWindow (dateKeyTime key) start end \<or> inWindow (dateKeyTime key) prevStart prevEnd
      then acc\<lparr>tr_garbled := True\<rparr> else acc)"

definition trendStep ::
  "Env \<Rightarrow> StorageData \<Rightarrow> string \<Rightarrow> int \<Rightarrow> int \<Rightarrow> int \<Rightarrow> int \<Rightarrow> TrendAcc \<Rightarrow> string \<Rightarrow> TrendAcc" where
  "trendStep env data domain start end prevStart prevEnd acc key =
     (if \<not> isDateKey key then acc
      else
        (case lookupSite env (dayData data key) domain of
           Undefined \<Rightarrow> acc
         | InheritedObject \<Rightarrow> trendGarble start end prevStart prevEnd acc key
         | InheritedPrimitive \<Rightarrow> trendGarble start end prevStart prevEnd acc key
         | Own siteData \<Rightarrow> trendAdd start end prevStart prevEnd acc key siteData))"

definition trendAcc0 :: TrendAcc where
  "trendAcc0 = \<lparr>tr_activeDays = 0, tr_totalTime = 0, tr_totalVisits = 0, tr_maxDailyTime = 0,
                 tr_maxDailyVisits = 0, tr_dailyTimes = [], tr_dailyVisits = [],
                 tr_prevTotalTime = 0, tr_prevTotalVisits = 0, tr_garbled = False\<rparr>"

definition dayMs :: int where
  "dayMs = 1000 * 60 * 60 * 24"

definition trendDaysDiff :: "int \<Rightarrow> int \<Rightarrow> int" where
  "trendDaysDiff start end = ceilDiv (end - start) dayMs + 1"

text \<open>
  \<open>prevEnd = new Date(start); prevEnd.setDate(prevEnd.getDate() - 1)\<close> and
  \<open>prevStart = new Date(prevEnd); prevStart.setDate(prevStart.getDate() - daysDiff + 1)\<close>:
  steps on the local calendar, which are not multiples of 24 hours across a
  daylight-saving change.
\<close>

definition trendPrevEnd :: "Env \<Rightarrow> int \<Rightarrow> int" where
  "trendPrevEnd env start = setDate env start (- 1)"

definition trendPrevStart :: "Env \<Rightarrow> int \<Rightarrow> int \<Rightarrow> int" where
  "trendPrevStart env start end =
     setDate env (trendPrevEnd env start) (- trendDaysDiff start end + 1)"

definition trendLoop :: "string \<Rightarrow> Env \<Rightarrow> int \<Rightarrow> int \<Rightarrow> StorageData \<Rightarrow> TrendAcc" where
  "trendLoop domain env start end data =
     foldl (trendStep env data domain start end
              (trendPrevStart env start end) (trendPrevEnd env start))
       trendAcc0 (map fst (days data))"

definition percentChange :: "int \<Rightarrow> int \<Rightarrow> real" where
  "percentChange cur prev =
     (if 0 < prev then (real_of_int (cur - prev) / real_of_int prev) * 100 else 0)"

definition getTrendMetrics ::
  "string \<Rightarrow> Env \<Rightarrow> int \<Rightarrow> int \<Rightarrow> StorageData \<Rightarrow> TrendMetrics Result" where
  "getTrendMetrics domain env start end data =
     (let acc = trendLoop domain env start end data in
      if tr_garbled acc then Garbled
      else Result
      \<lparr>tm_activeDays = tr_activeDays acc,
       tm_totalDays = trendDaysDiff start end,
       tm_maxDailyTime = tr_maxDailyTime acc,
       tm_avgDailyTime = (if 0 < length (tr_dailyTimes acc)
                          then real_of_int (tr_totalTime acc) / real (length (tr_dailyTimes acc))
                          else 0),
       tm_maxDailyVisits = tr_maxDailyVisits acc,
       tm_avgDailyVisits = (if 0 < length (tr_dailyVisits acc)
                            then real_of_int (tr_totalVisits acc) / real (length (tr_dailyVisits acc))
                            else 0),
       tm_totalTime = tr_totalTime acc,
       tm_totalVisits = tr_totalVisits acc,
       tm_timeChange = percentChange (tr_totalTime acc) (tr_prevTotalTime acc),
       tm_visitsChange = percentChange (tr_totalVisits acc) (tr_prevTotalVisits acc)\<rparr>)"

text \<open>A field of the domain's record of a day, 0 without a record.\<close>

definition siteField :: "(SiteRecord \<Rightarrow> int) \<Rightarrow> StorageData \<Rightarrow> string \<Rightarrow> string \<Rightarrow> int" where
  "siteField f data domain key = (case siteOn data key domain of None \<Rightarrow> 0 | Some r \<Rightarrow> f r)"

text \<open>
  The total of a field of the domain's records over the days of the store whose date
  lies in a window of instants, as the spec words it.
\<close>

definition windowTotal ::
  "(SiteRecord \<Rightarrow> int) \<Rightarrow> StorageData \<Rightarrow> string \<Rightarrow> int \<Rightarrow> int \<Rightarrow> int" where
  "windowTotal f data domain lo hi =
     sum_list (map (siteField f data domain)
                 (filter (\<lambda>key. isDateKey key \<and> inWindow (dateKeyTime key) lo hi)
                    (map fst (days data))))"

section \<open>The settings page (dashboard/index.tsx)\<close>

text \<open>
  \<open>parseInt(string)\<close> with no radix: leading white space is skipped, a sign is read,
  a prefix \<open>0x\<close> or \<open>0X\<close> selects base 16, and the longest run of digits of the base
  is the value; \<open>None\<close> stands for \<open>NaN\<close> (no digit). The value is an unbounded
  integer here. The characters of a string here have code points below 256; of these,
  JavaScript takes as white space the six below 33 and the no-break space.
\<close>

definition isWhiteSpace :: "char \<Rightarrow> bool" where
  "isWhiteSpace c =
     (c \<in> {CHR '' '', CHR 0x09, CHR 0x0A, CHR 0x0B, CHR 0x0C, CHR 0x0D, CHR 0xA0})"

definition digitValue :: "char \<Rightarrow> nat option" where
  "digitValue c =
     (let n = (of_char c :: nat) in
      if 48 \<le> n \<and> n \<le> 57 then Some (n - 48)
      else if 97 \<le> n \<and> n \<le> 122 then Some (n - 87)
      else if 65 \<le> n \<and> n \<le> 90 then Some (n - 55)
      else None)"

definition isDigitOf :: "nat \<Rightarrow> char \<Rightarrow> bool" where
  "isDigitOf radix c = (case digitValue c of None \<Rightarrow> False | Some d \<Rightarrow> d < radix)"

definition digitsValue :: "nat \<Rightarrow> string \<Rightarrow> int" where
  "digitsValue radix ds = foldl (\<lambda>a c. a * int radix + int (the (digitValue c))) 0 ds"

definition parseInt :: "string \<Rightarrow> int option" where
  "parseInt str =
     (let s1 = dropWhile isWhiteSpace str;
          negative = (s1 \<noteq> [] \<and> hd s1 = CHR ''-'');
          s2 = (if s1 \<noteq> [] \<and> (hd s1 = CHR ''-'' \<or> hd s1 = CHR ''+'') then tl s1 else s1);
          hex = (take 2 s2 = ''0x'' \<or> take 2 s2 = ''0X'');
          radix = (if hex then 16 else 10);
          s3 = (if hex then drop 2 s2 else s2);
          ds = takeWhile (isDigitOf radix) s3
      in if ds = [] then None
         else Some ((if negative then - 1 else 1) * digitsValue radix ds))"

text \<open>
  The \<open>onChange\<close> of the tracking-delay field:
  \<open>Math.min(100, Math.max(1, parseInt(e.target.value) || 1))\<close>.
\<close>

definition trackingDelayInput :: "string \<Rightarrow> int" where
  "trackingDelayInput v =
     min 100 (max 1 (case parseInt v of None \<Rightarrow> 1 | Some n \<Rightarrow> if n = 0 then 1 else n))"

text \<open>
  The number that the text of a number field stands for. The value the browser hands to
  \<open>onChange\<close> for \<open>type="number"\<close> is empty or a valid floating-point number: an
  optional minus sign, digits, an optional fraction and an optional exponent, as in
  \<open>250\<close>, \<open>2.5\<close> or \<open>25e1\<close>. \<open>None\<close> for any other text.
\<close>

definition isExponentMark :: "char \<Rightarrow> bool" where
  "isExponentMark c = (c = CHR ''e'' \<or> c = CHR ''E'')"

definition fieldNumber :: "string \<Rightarrow> rat option" where
  "fieldNumber v =
     (let negative = (v \<noteq> [] \<and> hd v = CHR ''-'');
          body = (if negative then tl v else v);
          mantissa = takeWhile (\<lambda>c. \<not> isExponentMark c) body;
          rest = dropWhile (\<lambda>c. \<not> isExponentMark c) body;
          ip = takeWhile isDigit mantissa;
          afterIp = dropWhile isDigit mantissa;
          fp = (if afterIp = [] then [] else tl afterIp);
          ex = (if rest = [] then [] else tl rest);
          exNegative = (ex \<noteq> [] \<and> hd ex = CHR ''-'');
          exDigits = (if ex \<noteq> [] \<and> (hd ex = CHR ''-'' \<or> hd ex = CHR ''+'') then tl ex else ex);
          wellFormed =
            ((afterIp = [] \<and> ip \<noteq> []
              \<or> afterIp \<noteq> [] \<and> hd afterIp = CHR ''.'' \<and> fp \<noteq> [] \<and> list_all isDigit fp)
             \<and> (rest = [] \<or> exDigits \<noteq> [] \<and> list_all isDigit exDigits));
          m = (of_int (numberOf ip) + of_int (numberOf fp) / 10 ^ length fp :: rat);
          scaled = (if exNegative then m / 10 ^ nat (numberOf exDigits)
                    else m * 10 ^ nat (numberOf exDigits))
      in if wellFormed then Some (if negative then - scaled else scaled) else None)"

text \<open>
  The state of the page that the settings use, and the page events that read or write
  it: \<open>fetchSettings\<close>, the \<open>onChange\<close> of the delay field, \<open>handleSaveSettings\<close> and
  \<open>handleThemeChange\<close>.
\<close>

record Dashboard =
  trackingDelay :: int
  currentThemeId :: string

definition initialDashboard :: Dashboard where
  "initialDashboard = \<lparr>trackingDelay = 15, currentThemeId = ''blue-500''\<rparr>"

datatype DashEvent =
    FetchSettings
  | DelayChanged string
  | SaveClicked
  | ThemeChanged string

fun dashStep :: "DashEvent \<Rightarrow> Dashboard \<times> StorageData \<Rightarrow> Dashboard \<times> StorageData" where
  "dashStep FetchSettings (d, s) =
     (let settingsData = getSettings s;
          d1 = d\<lparr>trackingDelay := trackingDelaySeconds settingsData\<rparr>
      in (if theme settingsData \<noteq> [] then d1\<lparr>currentThemeId := theme settingsData\<rparr> else d1, s))"
| "dashStep (DelayChanged v) (d, s) = (d\<lparr>trackingDelay := trackingDelayInput v\<rparr>, s)"
| "dashStep SaveClicked (d, s) =
     (d, setSettings (Some (trackingDelay d)) (Some (currentThemeId d)) s)"
| "dashStep (ThemeChanged themeId) (d, s) =
     (d\<lparr>currentThemeId := themeId\<rparr>, setSettings (Some (trackingDelay d)) (Some themeId) s)"

fun dashRun :: "DashEvent list \<Rightarrow> Dashboard \<times> StorageData \<Rightarrow> Dashboard \<times> StorageData" where
  "dashRun [] x = x"
| "dashRun (e # es) x = dashRun es (dashStep e x)"

definition delayInRange :: "int \<Rightarrow> bool" where
  "delayInRange n = (1 \<le> n \<and> n \<le> 100)"

definition persistedDelay :: "StorageData \<Rightarrow> int" where
  "persistedDelay s = trackingDelaySeconds (getSettings s)"

text \<open>The invariant of the settings page and the store.\<close>

definition dashOk :: "Dashboard \<times> StorageData \<Rightarrow> bool" where
  "dashOk x = (delayInRange (trackingDelay (fst x)) \<and> delayInRange (persistedDelay (snd x)))"

section \<open>Observations used in the statements\<close>

text \<open>The time a domain has accumulated in today's record (0 without a record).\<close>

definition timeToday :: "Env \<Rightarrow> StorageData \<Rightarrow> string \<Rightarrow> int" where
  "timeToday env s domain =
     (case siteOn s (getTodayKey env) domain of None \<Rightarrow> 0 | Some r \<Rightarrow> time r)"

definition visitsToday :: "Env \<Rightarrow> StorageData \<Rightarrow> string \<Rightarrow> int" where
  "visitsToday env s domain =
     (case siteOn s (getTodayKey env) domain of None \<Rightarrow> 0 | Some r \<Rightarrow> visitCount r)"

text \<open>
  The domain reads an inherited member in a day's record: it has no record of its own
  there and \<open>Object.prototype\<close> holds something under its name.
\<close>

definition readsInherited :: "Env \<Rightarrow> StorageData \<Rightarrow> string \<Rightarrow> string \<Rightarrow> bool" where
  "readsInherited env s k dm = (siteOn s k dm = None \<and> protoMember env dm \<noteq> NoMember)"

text \<open>The \<open>duration\<close> and \<open>minDuration\<close> that \<open>commitTime\<close> computes.\<close>

definition sessionDuration :: "Env \<Rightarrow> StorageData \<Rightarrow> int" where
  "sessionDuration env s = now env - the (st_startTime s)"

definition minDwell :: "StorageData \<Rightarrow> int" where
  "minDwell s = trackingDelaySeconds (getSettings s) * 1000"

text \<open>The notification flags of a domain in a day's record, as \<open>getDailyUsage\<close> reads them.\<close>

definition flagsOn :: "StorageData \<Rightarrow> string \<Rightarrow> string \<Rightarrow> NotificationState" where
  "flagsOn s key domain =
     (case siteOn s key domain of
        None \<Rightarrow> noNotifications
      | Some r \<Rightarrow> (case notifications r of None \<Rightarrow> noNotifications | Some n \<Rightarrow> n))"

text \<open>The redirect that \<open>blockTab\<close> sends, if any.\<close>

definition blockEffects :: "Env \<Rightarrow> string \<Rightarrow> Limit \<Rightarrow> Effect list" where
  "blockEffects env domain limit =
     (case activeTab env of
        None \<Rightarrow> []
      | Some tab \<Rightarrow>
          (case (tab_id tab, tab_url tab) of
             (Some i, Some u) \<Rightarrow>
               if i \<noteq> 0 \<and> u \<noteq> [] \<and> getDomain env u = Some domain
               then [RedirectBlocked i domain (timeLimit limit)] else []
           | _ \<Rightarrow> []))"

text \<open>The query for the active tab gave a tab with an id: \<open>tab && tab.id\<close>.\<close>

definition tabResolved :: "Env \<Rightarrow> bool" where
  "tabResolved env = (case activeTab env of None \<Rightarrow> False | Some tab \<Rightarrow> truthyNum (tab_id tab))"

text \<open>The domain has a blocking limit and today's time has reached it.\<close>

definition limitReached :: "Env \<Rightarrow> StorageData \<Rightarrow> string \<Rightarrow> bool" where
  "limitReached env s domain =
     (case getLimit domain s of
        None \<Rightarrow> False
      | Some limit \<Rightarrow> blockOnLimit limit \<and> timeLimit limit \<le> timeToday env s domain)"

text \<open>
  Any sequence of the three operations that touch a day's record: a limit check, a
  \<open>saveTime\<close> and an \<open>incrementVisitCount\<close>, each with its own environment.
\<close>

datatype Op =
    Check Env string int
  | Save Env string int string
  | Visit Env string string

fun applyOp :: "Op \<Rightarrow> World \<Rightarrow> World" where
  "applyOp (Check env domain timeToAdd) w = checkLimits env domain timeToAdd w"
| "applyOp (Save env domain duration fav) w = onStore (saveTime env domain duration fav) w"
| "applyOp (Visit env domain fav) w = onStore (incrementVisitCount env domain fav) w"

fun opDay :: "Op \<Rightarrow> string" where
  "opDay (Check env _ _) = getTodayKey env"
| "opDay (Save env _ _ _) = getTodayKey env"
| "opDay (Visit env _ _) = getTodayKey env"

fun run :: "Op list \<Rightarrow> World \<Rightarrow> World" where
  "run [] w = w"
| "run (op # ops) w = run ops (applyOp op w)"

text \<open>
  The invariant behind the idempotence of notifications: a notification of the day is in
  the log at most once, and only when its flag is set.
\<close>

definition sentOnce :: "string \<Rightarrow> string \<Rightarrow> World \<Rightarrow> bool" where
  "sentOnce day D w =
     (count_list (effects w) (Notify80 D) \<le> (if sent80 (flagsOn (store w) day D) then 1 else 0)
      \<and> count_list (effects w) (Notify100 D)
            \<le> (if sent100 (flagsOn (store w) day D) then 1 else 0))"





section \<open>Concrete inputs\<close>

text \<open>The host's URL parser on the URLs of the examples below.\<close>

definition exampleHost :: "string \<Rightarrow> string option" where
  "exampleHost u =
     (if u = ''https://example.com/'' then Some ''example.com''
      else if u = ''https://www.example.com/page'' then Some ''www.example.com''
      else if u = ''https://other.org/'' then Some ''other.org''
      else None)"

definition exampleTab :: Tab where
  "exampleTab = \<lparr>tab_id = Some 7, tab_url = Some ''https://example.com/''\<rparr>"

text \<open>The members of \<open>Object.prototype\<close> in a fresh realm: all of them functions or objects.\<close>

definition standardMember :: "string \<Rightarrow> Member" where
  "standardMember name =
     (if name \<in> set [''constructor'', ''__proto__'', ''hasOwnProperty'', ''isPrototypeOf'',
                      ''propertyIsEnumerable'', ''toLocaleString'', ''toString'', ''valueOf'',
                      ''__defineGetter__'', ''__defineSetter__'', ''__lookupGetter__'',
                      ''__lookupSetter__'']
      then ObjectMember else NoMember)"

text \<open>A host on 2024-01-08 (day 19730) whose time zone has no daylight-saving change.\<close>

definition envAt :: "int \<Rightarrow> Tab option \<Rightarrow> Env" where
  "envAt t tab = \<lparr>now = t, localDay = 19730, hostname = exampleHost, activeTab = tab,
                  protoMember = standardMember, setDate = (\<lambda>d k. d + k * 86400000)\<rparr>"

definition emptyStore :: StorageData where
  "emptyStore = \<lparr>whitelist = None, settings = None, limits = None, days = [],
                  st_currentUrl = None, st_startTime = None, st_favicon = None\<rparr>"

definition worldOf :: "StorageData \<Rightarrow> World" where
  "worldOf s = \<lparr>store = s, lastVisit = \<lparr>lv_domain = [], lv_timestamp = 0\<rparr>, effects = []\<rparr>"

text \<open>A session on example.com opened at 1000000 ms, with the default settings (15 s).\<close>

definition sessionStore :: StorageData where
  "sessionStore = emptyStore\<lparr>st_currentUrl := Some ''https://example.com/'',
                             st_startTime := Some 1000000, st_favicon := Some []\<rparr>"

definition whitelistedStore :: StorageData where
  "whitelistedStore = sessionStore\<lparr>whitelist := Some [''example.com'']\<rparr>"

text \<open>
  The limit of the spec's scenario (one hour, both notifications, blocking) on
  example.com, with a given time already accumulated today.
\<close>

definition exampleLimit :: Limit where
  "exampleLimit = \<lparr>timeLimit = 3600000, notify80 = True, notify100 = True, blockOnLimit = True\<rparr>"

definition usedStore :: "int \<Rightarrow> StorageData" where
  "usedStore t =
     emptyStore\<lparr>limits := Some [(''example.com'', exampleLimit)],
                days := [(''2024-01-08'',
                          [(''example.com'',
                            \<lparr>time = t, favicon = [], lastVisited = 900000, visitCount = 3,
                             notifications = None\<rparr>)])]\<rparr>"

text \<open>
  The scenario of the spec: with 2900000 ms used, a commit of 50000 ms and its check
  send the 80% notification; repeated checks send nothing more; a later commit that
  reaches the limit sends the 100% notification, once.
\<close>

definition scenarioOps :: "Op list" where
  "scenarioOps =
     [Save (envAt 1020000 None) ''example.com'' 50000 [],
      Check (envAt 1020000 None) ''example.com'' 0,
      Check (envAt 1030000 None) ''example.com'' 0,
      Check (envAt 1040000 None) ''example.com'' 10000,
      Save (envAt 1900000 None) ''example.com'' 650000 [],
      Check (envAt 1900000 None) ''example.com'' 0,
      Check (envAt 1960000 None) ''example.com'' 60000]"





text \<open>
  A session on other.org opened at 1000000 ms, while example.com has used up its
  blocking limit of one hour; the block page of the extension, and the active tab once
  it shows that page.
\<close>

definition staleStore :: StorageData where
  "staleStore = (usedStore 3600000)\<lparr>st_currentUrl := Some ''https://other.org/'',
                                       st_startTime := Some 1000000, st_favicon := Some []\<rparr>"

definition blockPage :: string where
  "blockPage = ''chrome-extension://abcdefghijklmnop/blocked.html?domain=example.com&limit=3600000''"

definition blockPageTab :: Tab where
  "blockPageTab = \<lparr>tab_id = Some 7, tab_url = Some blockPage\<rparr>"

text \<open>
  A host in America/Los_Angeles around the end of daylight-saving time, on 2024-11-03
  at 09:00 UTC (1730624400000 ms): the offset of local time from UTC before and after
  it, and \<open>setDate\<close> as the host computes it there, keeping the local time of day.
  The instant of the environment is 2024-11-04 12:00 local time (day 20031).
\<close>

definition laOffset :: "int \<Rightarrow> int" where
  "laOffset t = (if t < 1730624400000 then - 25200000 else - 28800000)"

definition laSetDate :: "int \<Rightarrow> int \<Rightarrow> int" where
  "laSetDate t k =
     (let wall = t + laOffset t + k * 86400000
      in if laOffset (wall + 25200000) = - 25200000 then wall + 25200000
         else wall + 28800000)"

definition laEnv :: Env where
  "laEnv = \<lparr>now = 1730750400000, localDay = 20031, hostname = exampleHost, activeTab = None,
             protoMember = standardMember, setDate = laSetDate\<rparr>"

text \<open>Two days of history on example.com: 10000 ms on 2024-11-03, 30000 ms on 2024-11-04.\<close>

definition laStore :: StorageData where
  "laStore =
     emptyStore\<lparr>days :=
       [(''2024-11-03'', [(''example.com'', \<lparr>time = 10000, favicon = [], lastVisited = 100,
                                             visitCount = 1, notifications = None\<rparr>)]),
        (''2024-11-04'', [(''example.com'', \<lparr>time = 30000, favicon = [], lastVisited = 200,
                                             visitCount = 3, notifications = None\<rparr>)])]\<rparr>"

section \<open>Facts about the store\<close>

lemma dateKeyOfDay_19730: "dateKeyOfDay 19730 = ''2024-01-08''"
  by code_simp

lemma getTodayKey_envAt [simp]: "getTodayKey (envAt t tab) = ''2024-01-08''"
  by (simp add: getTodayKey_def envAt_def dateKeyOfDay_19730)

lemma now_envAt [simp]: "now (envAt t tab) = t"
  by (simp add: envAt_def)

lemma hostname_envAt [simp]: "hostname (envAt t tab) = exampleHost"
  by (simp add: envAt_def)

lemma activeTab_envAt [simp]: "activeTab (envAt t tab) = tab"
  by (simp add: envAt_def)

lemma protoMember_envAt [simp]: "protoMember (envAt t tab) = standardMember"
  by (simp add: envAt_def)

lemma setDate_envAt [simp]: "setDate (envAt t tab) d k = d + k * 86400000"
  by (simp add: envAt_def)

lemma standardMember_examples [simp]:
  "standardMember ''example.com'' = NoMember"
  "standardMember ''www.example.com'' = NoMember"
  "standardMember ''other.org'' = NoMember"
  "standardMember ''constructor'' = ObjectMember"
  by (simp_all add: standardMember_def)

lemma navigation_examples:
  "getDomain (envAt t tab) ''https://example.com/'' = Some ''example.com''"
  "getDomain (envAt t tab) ''https://www.example.com/page'' = Some ''example.com''"
  "getDomain (envAt t tab) ''https://other.org/'' = Some ''other.org''"
  by (simp_all add: getDomain_def blockedPrefixes_def startsWith_def exampleHost_def)

lemmas ex_defs = worldOf_def emptyStore_def usedStore_def exampleLimit_def
  exampleHost_def exampleTab_def getDomain_def blockedPrefixes_def startsWith_def
  getLimit_def timeToday_def visitsToday_def siteOn_def dayData_def flagsOn_def
  noNotifications_def whitelistOf_def truthyStr_def truthyNum_def

lemma dayData_setDay: "dayData (setDay k d s) k' = (if k' = k then d else dayData s k')"
  by (simp add: dayData_def setDay_def update_conv')

lemma whitelistOf_setDay [simp]: "whitelistOf (setDay k d s) = whitelistOf s"
  by (simp add: whitelistOf_def setDay_def)

lemma dayData_rewritten [simp]: "dayData (setDay k (dayData s k) s) k' = dayData s k'"
  by (simp add: dayData_setDay)

lemma lookupSite_siteOn:
  "lookupSite env (dayData s k) dm =
     (case siteOn s k dm of
        Some r \<Rightarrow> Own r
      | None \<Rightarrow> (case protoMember env dm of
                   NoMember \<Rightarrow> Undefined
                 | ObjectMember \<Rightarrow> InheritedObject
                 | PrimitiveMember \<Rightarrow> InheritedPrimitive))"
  by (simp add: lookupSite_def siteOn_def)

lemma readsInherited_NoMember [simp]:
  "protoMember env dm = NoMember \<Longrightarrow> \<not> readsInherited env s k dm"
  by (simp add: readsInherited_def)

lemma siteOn_saveTime:
  "siteOn (saveTime env dm dur fav s) k dm' =
    (if dm = [] \<or> dur \<le> 0 \<or> dm \<in> set (whitelistOf s) \<or> k \<noteq> getTodayKey env \<or> dm' \<noteq> dm
        \<or> readsInherited env s k dm
     then siteOn s k dm'
     else Some (timeAdded env dur fav
                  (case siteOn s k dm of
                     None \<Rightarrow> \<lparr>time = 0, favicon = fav, lastVisited = now env,
                               visitCount = 0, notifications = None\<rparr>
                   | Some r \<Rightarrow> r)))"
  by (cases "protoMember env dm")
     (auto simp add: saveTime_def Let_def lookupSite_siteOn readsInherited_def siteOn_def
        dayData_setDay update_conv' split: option.splits)

lemma time_timeAdded [simp]: "time (timeAdded env dur fav r) = time r + dur"
  by (simp add: timeAdded_def Let_def)

lemma visitCount_timeAdded [simp]: "visitCount (timeAdded env dur fav r) = visitCount r"
  by (simp add: timeAdded_def Let_def)

lemma notifications_timeAdded [simp]: "notifications (timeAdded env dur fav r) = notifications r"
  by (simp add: timeAdded_def Let_def)

lemma timeToday_saveTime:
  "timeToday env (saveTime env dm dur fav s) dm' =
    (if dm = [] \<or> dur \<le> 0 \<or> dm \<in> set (whitelistOf s) \<or> dm' \<noteq> dm
        \<or> readsInherited env s (getTodayKey env) dm
     then timeToday env s dm' else timeToday env s dm' + dur)"
  by (auto simp add: timeToday_def siteOn_saveTime split: option.splits)

lemma visitsToday_saveTime:
  "visitsToday env' (saveTime env dm dur fav s) dm' = visitsToday env' s dm'"
  by (auto simp add: visitsToday_def siteOn_saveTime split: option.splits)

lemma siteOn_updateNotificationState:
  "siteOn (updateNotificationState env dm u80 u100 s) k dm' =
    (if k \<noteq> getTodayKey env \<or> dm' \<noteq> dm then siteOn s k dm'
     else Some (let site = (case siteOn s k dm of
                    None \<Rightarrow> \<lparr>time = 0, favicon = [], lastVisited = now env,
                              visitCount = 0, notifications = None\<rparr>
                  | Some r \<Rightarrow> r);
          old = (case notifications site of None \<Rightarrow> noNotifications | Some n \<Rightarrow> n)
          in site\<lparr>notifications :=
                    Some \<lparr>sent80 = (case u80 of None \<Rightarrow> sent80 old | Some b \<Rightarrow> b),
                          sent100 = (case u100 of None \<Rightarrow> sent100 old | Some b \<Rightarrow> b)\<rparr>\<rparr>))"
  by (simp add: updateNotificationState_def Let_def siteOn_def dayData_setDay update_conv')

lemma timeToday_updateNotificationState:
  "timeToday env (updateNotificationState env dm u80 u100 s) dm' = timeToday env s dm'"
  by (auto simp add: timeToday_def siteOn_updateNotificationState Let_def split: option.splits)

lemma store_emit [simp]: "store (emit e w) = store w"
  by (simp add: emit_def)

lemma store_onStore [simp]: "store (onStore f w) = f (store w)"
  by (simp add: onStore_def)

lemma store_blockTab [simp]: "store (blockTab env dm l w) = store w"
  by (simp add: blockTab_def split: option.splits)

lemma timeToday_checkLimits:
  "timeToday env (store (checkLimits env dm t w)) dm' = timeToday env (store w) dm'"
  by (simp add: checkLimits_def Let_def timeToday_updateNotificationState split: option.splits)

lemma usage_flags: "usage_notifications (getDailyUsage env dm s) = flagsOn s (getTodayKey env) dm"
  by (simp add: getDailyUsage_def flagsOn_def split: option.splits)

lemma usage_time: "usage_time (getDailyUsage env dm s) = timeToday env s dm"
  by (simp add: getDailyUsage_def timeToday_def split: option.splits)

lemma flagsOn_saveTime: "flagsOn (saveTime env dm dur fav s) k dm' = flagsOn s k dm'"
  by (auto simp add: flagsOn_def siteOn_saveTime noNotifications_def split: option.splits)

lemma siteOn_incrementVisitCount:
  "siteOn (incrementVisitCount env dm fav s) k dm' =
    (if dm \<in> set (whitelistOf s) \<or> k \<noteq> getTodayKey env \<or> dm' \<noteq> dm \<or> readsInherited env s k dm
     then siteOn s k dm'
     else Some (case siteOn s k dm of
                  None \<Rightarrow> \<lparr>time = 0, favicon = fav, lastVisited = now env,
                            visitCount = 1, notifications = None\<rparr>
                | Some r \<Rightarrow> visitAdded env fav r))"
  by (cases "protoMember env dm")
     (auto simp add: incrementVisitCount_def Let_def lookupSite_siteOn readsInherited_def
        siteOn_def dayData_setDay update_conv' split: option.splits)

lemma time_visitAdded [simp]: "time (visitAdded env fav r) = time r"
  by (simp add: visitAdded_def Let_def)

lemma visitCount_visitAdded [simp]: "visitCount (visitAdded env fav r) = visitCount r + 1"
  by (simp add: visitAdded_def Let_def)

lemma notifications_visitAdded [simp]: "notifications (visitAdded env fav r) = notifications r"
  by (simp add: visitAdded_def Let_def)

lemma flagsOn_incrementVisitCount:
  "flagsOn (incrementVisitCount env dm fav s) k dm' = flagsOn s k dm'"
  by (auto simp add: flagsOn_def siteOn_incrementVisitCount noNotifications_def
        split: option.splits)


lemma flagsOn_updateNotificationState:
  "flagsOn (updateNotificationState env dm u80 u100 s) k dm' =
     (if k \<noteq> getTodayKey env \<or> dm' \<noteq> dm then flagsOn s k dm'
      else \<lparr>sent80 = (case u80 of None \<Rightarrow> sent80 (flagsOn s k dm) | Some b \<Rightarrow> b),
            sent100 = (case u100 of None \<Rightarrow> sent100 (flagsOn s k dm) | Some b \<Rightarrow> b)\<rparr>)"
  by (simp add: flagsOn_def siteOn_updateNotificationState Let_def split: option.splits)

lemma effects_blockTab: "effects (blockTab env dm l w) = effects w @ blockEffects env dm l"
  by (simp add: blockTab_def blockEffects_def emit_def split: option.splits)

lemma effects_onStore [simp]: "effects (onStore f w) = effects w"
  by (simp add: onStore_def)

lemma effects_emit [simp]: "effects (emit e w) = effects w @ [e]"
  by (simp add: emit_def)

lemma effects_checkLimits:
  assumes "getLimit dm (store w) = Some limit"
  shows "effects (checkLimits env dm t w) =
           effects w
           @ (if notify80 limit
                 \<and> real_of_int (timeLimit limit) * 0.8 \<le> real_of_int (timeToday env (store w) dm + t)
                 \<and> timeToday env (store w) dm + t < timeLimit limit
                 \<and> \<not> sent80 (flagsOn (store w) (getTodayKey env) dm)
              then [Notify80 dm] else [])
           @ (if notify100 limit \<and> timeLimit limit \<le> timeToday env (store w) dm + t
                 \<and> \<not> sent100 (flagsOn (store w) (getTodayKey env) dm)
              then [Notify100 dm] else [])
           @ (if blockOnLimit limit \<and> timeLimit limit \<le> timeToday env (store w) dm + t
              then blockEffects env dm limit else [])"
  using assms
  by (auto simp add: checkLimits_def Let_def fires80_def fires100_def is80Percent_def
        is100Percent_def usage_flags usage_time effects_blockTab)

lemma flags_checkLimits:
  assumes "getLimit dm (store w) = Some limit"
  shows "flagsOn (store (checkLimits env dm t w)) (getTodayKey env) dm =
          \<lparr>sent80 = (sent80 (flagsOn (store w) (getTodayKey env) dm) \<or> fires80 limit (getDailyUsage env dm (store w)) (timeToday env (store w) dm + t)),
           sent100 = (sent100 (flagsOn (store w) (getTodayKey env) dm) \<or> fires100 limit (getDailyUsage env dm (store w)) (timeToday env (store w) dm + t))\<rparr>"
  using assms
  by (auto simp add: checkLimits_def Let_def usage_time flagsOn_updateNotificationState)

lemma flags_checkLimits_other:
  "dm' \<noteq> dm \<Longrightarrow> flagsOn (store (checkLimits env dm t w)) k dm' = flagsOn (store w) k dm'"
  by (simp add: checkLimits_def Let_def flagsOn_updateNotificationState split: option.splits)

lemma count_blockEffects [simp]:
  "count_list (blockEffects env dm l) (Notify80 D) = 0"
  "count_list (blockEffects env dm l) (Notify100 D) = 0"
  by (simp_all add: blockEffects_def split: option.splits)

lemma sentOnce_checkLimits:
  assumes "sentOnce (getTodayKey env) D w"
  shows "sentOnce (getTodayKey env) D (checkLimits env dm t w)"
proof (cases "getLimit dm (store w)")
  case None
  then show ?thesis using assms by (simp add: checkLimits_def)
next
  case (Some limit)
  show ?thesis
  proof (cases "dm = D")
    case True
    show ?thesis
      using assms
      unfolding sentOnce_def True effects_checkLimits [OF Some [unfolded True]]
        flags_checkLimits [OF Some [unfolded True]]
      by (auto simp add: fires80_def fires100_def usage_flags is80Percent_def is100Percent_def)
  next
    case False
    then have "D \<noteq> dm" by simp
    then show ?thesis
      using assms False
      unfolding sentOnce_def effects_checkLimits [OF Some] flags_checkLimits_other [OF \<open>D \<noteq> dm\<close>]
      by auto
  qed
qed

lemma sentOnce_applyOp:
  assumes "sentOnce day D w" and "opDay op = day"
  shows "sentOnce day D (applyOp op w)"
proof (cases op)
  case (Check env dm t)
  then show ?thesis using assms sentOnce_checkLimits [of env D w dm t] by simp
next
  case (Save env dm dur fav)
  then show ?thesis using assms by (simp add: sentOnce_def flagsOn_saveTime)
next
  case (Visit env dm fav)
  then show ?thesis using assms by (simp add: sentOnce_def flagsOn_incrementVisitCount)
qed

lemma sentOnce_run:
  "sentOnce day D w \<Longrightarrow> \<forall>op \<in> set ops. opDay op = day \<Longrightarrow> sentOnce day D (run ops w)"
  by (induction ops arbitrary: w) (simp_all add: sentOnce_applyOp)


lemma startTracking_blocked:
  assumes "getDomain env url = Some D" and "D \<noteq> []"
    and "getLimit D (store w) = Some limit" and "blockOnLimit limit"
    and "timeLimit limit \<le> timeToday env (store w) D"
    and "activeTab env = Some tab" and "tab_id tab = Some i" and "i \<noteq> 0"
  shows "startTracking env url tv w = emit (RedirectBlocked i D (timeLimit limit)) w"
  using assms
  by (simp add: startTracking_def truthyStr_def blockedOnNavigation_def usage_time truthyNum_def)

lemma siteOn_openSession [simp]: "siteOn (openSession env url s) k dm = siteOn s k dm"
  by (simp add: openSession_def siteOn_def dayData_def)

lemma incrementVisitCountThrows_NoMember [simp]:
  "protoMember env D = NoMember \<Longrightarrow> \<not> incrementVisitCountThrows env D s"
  by (simp add: incrementVisitCountThrows_def lookupSite_siteOn split: option.splits)

lemma saveTimeThrows_NoMember [simp]:
  "protoMember env D = NoMember \<Longrightarrow> \<not> saveTimeThrows env D dur s"
  by (simp add: saveTimeThrows_def lookupSite_siteOn split: option.splits)


lemma timeToday_incrementVisitCount:
  "timeToday env' (incrementVisitCount env dm fav s) dm' = timeToday env' s dm'"
  by (auto simp add: timeToday_def siteOn_incrementVisitCount split: option.splits)

lemma getLimit_setDay [simp]: "getLimit dm (setDay k d s) = getLimit dm s"
  by (simp add: getLimit_def setDay_def)

lemma getLimit_incrementVisitCount [simp]:
  "getLimit dm' (incrementVisitCount env dm fav s) = getLimit dm' s"
  by (simp add: incrementVisitCount_def Let_def split: Lookup.splits)

lemma getLimit_openSession [simp]: "getLimit dm (openSession env url s) = getLimit dm s"
  by (simp add: getLimit_def openSession_def)

lemma whitelistOf_openSession [simp]: "whitelistOf (openSession env url s) = whitelistOf s"
  by (simp add: whitelistOf_def openSession_def)

lemma whitelistOf_incrementVisitCount [simp]:
  "whitelistOf (incrementVisitCount env dm fav s) = whitelistOf s"
  by (simp add: incrementVisitCount_def Let_def split: Lookup.splits)

lemma getLimit_saveTime [simp]:
  "getLimit dm' (saveTime env dm dur fav s) = getLimit dm' s"
  by (simp add: saveTime_def Let_def split: Lookup.splits)

lemma whitelistOf_saveTime [simp]:
  "whitelistOf (saveTime env dm dur fav s) = whitelistOf s"
  by (simp add: saveTime_def Let_def split: Lookup.splits)

lemma whitelistOf_updateNotificationState [simp]:
  "whitelistOf (updateNotificationState env dm u80 u100 s) = whitelistOf s"
  by (simp add: updateNotificationState_def Let_def)

lemma timeToday_openSession [simp]: "timeToday env' (openSession env url s) dm = timeToday env' s dm"
  by (simp add: timeToday_def)

lemma visitsToday_openSession [simp]: "visitsToday env' (openSession env url s) dm = visitsToday env' s dm"
  by (simp add: visitsToday_def)

lemma visitsToday_updateNotificationState:
  "visitsToday env' (updateNotificationState env dm u80 u100 s) dm' = visitsToday env' s dm'"
  by (auto simp add: visitsToday_def siteOn_updateNotificationState Let_def split: option.splits)

text \<open>A limit check and a commit leave the visit counts, the whitelist and \<open>_lastVisit\<close> alone.\<close>

lemma lastVisit_emit [simp]: "lastVisit (emit e w) = lastVisit w"
  by (simp add: emit_def)

lemma lastVisit_onStore [simp]: "lastVisit (onStore f w) = lastVisit w"
  by (simp add: onStore_def)

lemma lastVisit_blockTab [simp]: "lastVisit (blockTab env dm l w) = lastVisit w"
  by (simp add: blockTab_def split: option.splits)

lemma checkLimits_keeps:
  "visitsToday env' (store (checkLimits env dm t w)) dm' = visitsToday env' (store w) dm'"
  "whitelistOf (store (checkLimits env dm t w)) = whitelistOf (store w)"
  "lastVisit (checkLimits env dm t w) = lastVisit w"
  by (simp_all add: checkLimits_def Let_def visitsToday_updateNotificationState
        split: option.splits)

lemma commitTime_keeps:
  "visitsToday env' (store (commitTime env w)) dm' = visitsToday env' (store w) dm'"
  "whitelistOf (store (commitTime env w)) = whitelistOf (store w)"
  "lastVisit (commitTime env w) = lastVisit w"
  by (simp_all add: commitTime_def Let_def checkLimits_keeps visitsToday_saveTime)

lemma isDuplicate_commitTime [simp]:
  "isDuplicate env' D (commitTime env w) = isDuplicate env' D w"
  by (simp add: isDuplicate_def commitTime_keeps)





section \<open>Facts about the reports\<close>

lemma trendStep_plain:
  assumes "protoMember env dm = NoMember"
  shows "trendStep env data dm s e ps pe acc key =
           (if \<not> isDateKey key then acc
            else (case siteOn data key dm of
                    None \<Rightarrow> acc
                  | Some siteData \<Rightarrow> trendAdd s e ps pe acc key siteData))"
  using assms by (simp add: trendStep_def lookupSite_siteOn split: option.splits)

lemma trendStep_fields:
  assumes "protoMember env dm = NoMember"
  shows
  "tr_totalTime (trendStep env data dm s e ps pe acc key) =
     tr_totalTime acc
     + (if isDateKey key \<and> inWindow (dateKeyTime key) s e then siteField time data dm key else 0)"
  "tr_totalVisits (trendStep env data dm s e ps pe acc key) =
     tr_totalVisits acc
     + (if isDateKey key \<and> inWindow (dateKeyTime key) s e
        then siteField visitCount data dm key else 0)"
  "tr_prevTotalTime (trendStep env data dm s e ps pe acc key) =
     tr_prevTotalTime acc
     + (if isDateKey key \<and> inWindow (dateKeyTime key) ps pe then siteField time data dm key else 0)"
  "tr_prevTotalVisits (trendStep env data dm s e ps pe acc key) =
     tr_prevTotalVisits acc
     + (if isDateKey key \<and> inWindow (dateKeyTime key) ps pe
        then siteField visitCount data dm key else 0)"
  "tr_garbled (trendStep env data dm s e ps pe acc key) = tr_garbled acc"
  by (simp_all add: trendStep_plain [OF assms] trendAdd_def siteField_def Let_def
        split: option.splits)

lemma trendLoop_totalTime:
  assumes "protoMember env dm = NoMember"
  shows "tr_totalTime (foldl (trendStep env data dm s e ps pe) acc keys) =
     tr_totalTime acc
     + sum_list (map (siteField time data dm)
                 (filter (\<lambda>key. isDateKey key \<and> inWindow (dateKeyTime key) s e) keys))"
  by (induction keys arbitrary: acc) (simp_all add: trendStep_fields [OF assms])

lemma trendLoop_totalVisits:
  assumes "protoMember env dm = NoMember"
  shows "tr_totalVisits (foldl (trendStep env data dm s e ps pe) acc keys) =
     tr_totalVisits acc
     + sum_list (map (siteField visitCount data dm)
                 (filter (\<lambda>key. isDateKey key \<and> inWindow (dateKeyTime key) s e) keys))"
  by (induction keys arbitrary: acc) (simp_all add: trendStep_fields [OF assms])

lemma trendLoop_prevTotalTime:
  assumes "protoMember env dm = NoMember"
  shows "tr_prevTotalTime (foldl (trendStep env data dm s e ps pe) acc keys) =
     tr_prevTotalTime acc
     + sum_list (map (siteField time data dm)
                 (filter (\<lambda>key. isDateKey key \<and> inWindow (dateKeyTime key) ps pe) keys))"
  by (induction keys arbitrary: acc) (simp_all add: trendStep_fields [OF assms])

lemma trendLoop_prevTotalVisits:
  assumes "protoMember env dm = NoMember"
  shows "tr_prevTotalVisits (foldl (trendStep env data dm s e ps pe) acc keys) =
     tr_prevTotalVisits acc
     + sum_list (map (siteField visitCount data dm)
                 (filter (\<lambda>key. isDateKey key \<and> inWindow (dateKeyTime key) ps pe) keys))"
  by (induction keys arbitrary: acc) (simp_all add: trendStep_fields [OF assms])

lemma trendLoop_garbled:
  assumes "protoMember env dm = NoMember"
  shows "tr_garbled (foldl (trendStep env data dm s e ps pe) acc keys) = tr_garbled acc"
  by (induction keys arbitrary: acc) (simp_all add: trendStep_fields [OF assms])

lemma trendLoop_totals:
  assumes "protoMember env dm = NoMember"
  shows
  "tr_totalTime (trendLoop dm env s e data) = windowTotal time data dm s e"
  "tr_totalVisits (trendLoop dm env s e data) = windowTotal visitCount data dm s e"
  "tr_prevTotalTime (trendLoop dm env s e data)
     = windowTotal time data dm (trendPrevStart env s e) (trendPrevEnd env s)"
  "tr_prevTotalVisits (trendLoop dm env s e data)
     = windowTotal visitCount data dm (trendPrevStart env s e) (trendPrevEnd env s)"
  "\<not> tr_garbled (trendLoop dm env s e data)"
  by (simp_all add: trendLoop_def windowTotal_def trendLoop_totalTime [OF assms]
        trendLoop_totalVisits [OF assms] trendLoop_prevTotalTime [OF assms]
        trendLoop_prevTotalVisits [OF assms] trendLoop_garbled [OF assms] trendAcc0_def)

text \<open>
  Where \<open>setDate\<close> moves an instant by whole days of 24 hours (no daylight-saving change
  between the previous window and \<open>start\<close>), the previous window is the one of the
  same length just before \<open>start\<close>.
\<close>

lemma trend_windows:
  assumes "\<And>t k. setDate env t k = t + k * dayMs"
  shows "trendPrevEnd env s = s - dayMs"
    and "trendPrevStart env s e = s - trendDaysDiff s e * dayMs"
  by (simp_all add: trendPrevEnd_def trendPrevStart_def assms algebra_simps)


lemma ceilDiv_multiple: "b \<noteq> 0 \<Longrightarrow> ceilDiv (k * b) b = k"
  by (simp add: ceilDiv_def)

lemma trendDaysDiff_days:
  "a \<le> b \<Longrightarrow> trendDaysDiff (a * dayMs) (b * dayMs) = b - a + 1"
proof -
  have "(b * dayMs - a * dayMs) = (b - a) * dayMs" by (simp add: algebra_simps)
  moreover have "dayMs \<noteq> 0" by (simp add: dayMs_def)
  ultimately show ?thesis by (simp add: trendDaysDiff_def ceilDiv_multiple)
qed

lemma trend_without_shift:
  assumes p: "protoMember env dm = NoMember"
    and d: "\<And>t k. setDate env t k = t + k * dayMs"
  shows "\<exists>m. getTrendMetrics dm env s e data = Result m
           \<and> tm_totalDays m = trendDaysDiff s e
           \<and> tm_totalTime m = windowTotal time data dm s e
           \<and> tm_totalVisits m = windowTotal visitCount data dm s e
           \<and> tm_timeChange m
               = percentChange (windowTotal time data dm s e)
                   (windowTotal time data dm (s - trendDaysDiff s e * dayMs) (s - dayMs))
           \<and> tm_visitsChange m
               = percentChange (windowTotal visitCount data dm s e)
                   (windowTotal visitCount data dm (s - trendDaysDiff s e * dayMs) (s - dayMs))"
  by (simp add: getTrendMetrics_def Let_def trendLoop_totals [OF p] trend_windows [OF d])



lemma key_times:
  "dateKeyTime ''2024-01-08'' = Some 1704672000000"
  "dateKeyTime ''2024-01-07'' = Some 1704585600000"
  "dateKeyTime ''2024-01-02'' = Some 1704153600000"
  "dateKeyTime ''2024-01-01'' = Some 1704067200000"
  "dateKeyTime ''2024-11-03'' = Some 1730592000000"
  "dateKeyTime ''2024-11-04'' = Some 1730678400000"
  by (simp_all add: dateKeyTime_def isDateKey_def isDigit_def numberOf_def daysFromCivil_def Let_def)




















section \<open>The commit window\<close>

text \<open>
  C1, as amended. For every world, every environment and every domain \<open>d\<close> that is not
  the name of a member of \<open>Object.prototype\<close>: \<open>commitTime\<close> adds the session duration to
  \<open>d\<close>'s time in today's record, once, exactly when a session is open on a URL whose
  domain is \<open>d\<close>, \<open>d\<close> is not on the whitelist, and the duration lies between the minimum
  dwell (\<open>trackingDelaySeconds * 1000\<close>, and at least 1 ms) and 300000 ms; in every
  other case \<open>d\<close>'s time stays as it was. A commit whose duration is outside the window
  returns the world unchanged, and so does a commit with no open session, however often
  it is repeated.
\<close>

theorem commitTime_window:
  "(protoMember env d = NoMember \<longrightarrow>
      timeToday env (store (commitTime env w)) d =
        timeToday env (store w) d +
          (if sessionOpen (store w)
              \<and> getDomain env (the (st_currentUrl (store w))) = Some d \<and> d \<noteq> []
              \<and> d \<notin> set (whitelistOf (store w))
              \<and> max 1 (minDwell (store w)) \<le> sessionDuration env (store w)
              \<and> sessionDuration env (store w) \<le> 300000
           then sessionDuration env (store w) else 0))
   \<and> (\<not> (minDwell (store w) \<le> sessionDuration env (store w)
            \<and> sessionDuration env (store w) \<le> 300000) \<longrightarrow> commitTime env w = w)
   \<and> (\<not> sessionOpen (store w) \<longrightarrow>
         commitTime env w = w \<and> commitTime env' (commitTime env w) = w)"
proof (intro conjI impI)
  assume p: "protoMember env d = NoMember"
  show "timeToday env (store (commitTime env w)) d =
        timeToday env (store w) d +
          (if sessionOpen (store w)
              \<and> getDomain env (the (st_currentUrl (store w))) = Some d \<and> d \<noteq> []
              \<and> d \<notin> set (whitelistOf (store w))
              \<and> max 1 (minDwell (store w)) \<le> sessionDuration env (store w)
              \<and> sessionDuration env (store w) \<le> 300000
           then sessionDuration env (store w) else 0)"
    using p
    by (auto simp add: commitTime_def sessionOpen_def Let_def truthyStr_def minDwell_def
          sessionDuration_def timeToday_checkLimits timeToday_saveTime split: option.splits)
next
  assume "\<not> (minDwell (store w) \<le> sessionDuration env (store w)
            \<and> sessionDuration env (store w) \<le> 300000)"
  then show "commitTime env w = w"
    by (auto simp add: commitTime_def Let_def minDwell_def sessionDuration_def)
next
  assume "\<not> sessionOpen (store w)"
  then show "commitTime env w = w" and "commitTime env' (commitTime env w) = w"
    by (auto simp add: commitTime_def Let_def sessionOpen_def)
qed

text \<open>
  The scenario of the spec: default delay of 15 s, a session of 20000 ms on example.com
  adds 20000 ms; a world with no session is returned as it is.
\<close>

theorem commitTime_window_witness:
  "protoMember (envAt 1020000 None) ''example.com'' = NoMember
   \<and> timeToday (envAt 1020000 None) (store (commitTime (envAt 1020000 None) (worldOf sessionStore)))
      ''example.com'' = 20000
   \<and> commitTime (envAt 1020000 None) (worldOf emptyStore) = worldOf emptyStore"
  using commitTime_window [of "envAt 1020000 None" "''example.com''" "worldOf sessionStore"]
    commitTime_window [of "envAt 1020000 None" "''example.com''" "worldOf emptyStore"]
  by (simp add: worldOf_def sessionStore_def emptyStore_def sessionOpen_def
        truthyStr_def truthyNum_def getDomain_def blockedPrefixes_def startsWith_def
        exampleHost_def whitelistOf_def minDwell_def getSettings_def DEFAULT_SETTINGS_def
        sessionDuration_def timeToday_def siteOn_def dayData_def)

text \<open>
  C1, as stated, fails on a whitelisted domain: the session of 20000 ms lies in the
  window of the default delay (15000 ms to 300000 ms), and the commit writes nothing.
\<close>

theorem commitTime_whitelisted_counterexample:
  "sessionOpen whitelistedStore
   \<and> minDwell whitelistedStore \<le> sessionDuration (envAt 1020000 None) whitelistedStore
   \<and> sessionDuration (envAt 1020000 None) whitelistedStore \<le> 300000
   \<and> commitTime (envAt 1020000 None) (worldOf whitelistedStore) = worldOf whitelistedStore"
  by (simp add: worldOf_def whitelistedStore_def sessionStore_def emptyStore_def
        sessionOpen_def truthyStr_def truthyNum_def getDomain_def blockedPrefixes_def
        startsWith_def exampleHost_def whitelistOf_def minDwell_def getSettings_def
        DEFAULT_SETTINGS_def sessionDuration_def commitTime_def Let_def saveTime_def
        saveTimeThrows_def onStore_def checkLimits_def getLimit_def)

section \<open>Whitelisted domains\<close>

text \<open>
  C2. For every whitelisted domain, every duration and every favicon, \<open>saveTime\<close> and
  \<open>incrementVisitCount\<close> return the store as it was: no record of any day changes, so the
  domain accumulates neither time nor visits.
\<close>

theorem whitelisted_never_accumulates:
  assumes "domain \<in> set (whitelistOf s)"
  shows "saveTime env domain duration fav s = s \<and> incrementVisitCount env domain fav' s = s"
  using assms by (simp add: saveTime_def incrementVisitCount_def)

theorem whitelisted_never_accumulates_witness:
  "''example.com'' \<in> set (whitelistOf whitelistedStore)
   \<and> saveTime (envAt 1020000 None) ''example.com'' 20000 [] whitelistedStore = whitelistedStore
   \<and> incrementVisitCount (envAt 1020000 None) ''example.com'' [] whitelistedStore
       = whitelistedStore"
proof -
  have wl: "''example.com'' \<in> set (whitelistOf whitelistedStore)"
    by (simp add: whitelistOf_def whitelistedStore_def)
  from whitelisted_never_accumulates [OF wl] wl show ?thesis by simp
qed

section \<open>Visit debouncing\<close>





section \<open>Limit notifications\<close>

lemma scenario_effects:
  "effects (run scenarioOps (worldOf (usedStore 2900000)))
     = [Notify80 ''example.com'', Notify100 ''example.com'']"
  by (simp add: scenarioOps_def ex_defs checkLimits_def Let_def fires80_def fires100_def
        is80Percent_def is100Percent_def getDailyUsage_def onStore_def saveTime_def setDay_def
        lookupSite_def timeAdded_def updateNotificationState_def emit_def blockTab_def)

text \<open>
  C4. For a domain with a configured limit, one run of \<open>checkLimits\<close> appends to the
  log the 80% notification exactly when \<open>notify80\<close> is set, the total (today's time plus
  the time to add) is at least 0.8 of the limit and below the limit, and \<open>sent80\<close> is
  not set; it appends the 100% notification exactly when \<open>notify100\<close> is set, the total
  has reached the limit and \<open>sent100\<close> is not set; a flag is set afterwards exactly when
  it was set before or its notification was sent. Without a limit nothing happens. Over
  any sequence of limit checks, time saves and visit increments of one day, starting
  from a log without the notification, each notification of a domain is sent at most
  once.
\<close>

theorem checkLimits_notifications:
  "(getLimit D (store w) = Some limit \<longrightarrow>
      effects (checkLimits env D t w) =
        effects w
        @ (if notify80 limit
              \<and> real_of_int (timeLimit limit) * 0.8 \<le> real_of_int (timeToday env (store w) D + t)
              \<and> timeToday env (store w) D + t < timeLimit limit
              \<and> \<not> sent80 (flagsOn (store w) (getTodayKey env) D)
           then [Notify80 D] else [])
        @ (if notify100 limit \<and> timeLimit limit \<le> timeToday env (store w) D + t
              \<and> \<not> sent100 (flagsOn (store w) (getTodayKey env) D)
           then [Notify100 D] else [])
        @ (if blockOnLimit limit \<and> timeLimit limit \<le> timeToday env (store w) D + t
           then blockEffects env D limit else [])
      \<and> sent80 (flagsOn (store (checkLimits env D t w)) (getTodayKey env) D) =
          (sent80 (flagsOn (store w) (getTodayKey env) D)
           \<or> (notify80 limit
               \<and> real_of_int (timeLimit limit) * 0.8 \<le> real_of_int (timeToday env (store w) D + t)
               \<and> timeToday env (store w) D + t < timeLimit limit))
      \<and> sent100 (flagsOn (store (checkLimits env D t w)) (getTodayKey env) D) =
          (sent100 (flagsOn (store w) (getTodayKey env) D)
           \<or> (notify100 limit \<and> timeLimit limit \<le> timeToday env (store w) D + t)))
   \<and> (getLimit D (store w) = None \<longrightarrow> checkLimits env D t w = w)
   \<and> ((\<forall>op \<in> set ops. opDay op = day)
        \<and> Notify80 D \<notin> set (effects w) \<and> Notify100 D \<notin> set (effects w)
      \<longrightarrow> count_list (effects (run ops w)) (Notify80 D) \<le> 1
        \<and> count_list (effects (run ops w)) (Notify100 D) \<le> 1)"
proof (intro conjI impI)
  assume lim: "getLimit D (store w) = Some limit"
  show "effects (checkLimits env D t w) =
        effects w
        @ (if notify80 limit
              \<and> real_of_int (timeLimit limit) * 0.8 \<le> real_of_int (timeToday env (store w) D + t)
              \<and> timeToday env (store w) D + t < timeLimit limit
              \<and> \<not> sent80 (flagsOn (store w) (getTodayKey env) D)
           then [Notify80 D] else [])
        @ (if notify100 limit \<and> timeLimit limit \<le> timeToday env (store w) D + t
              \<and> \<not> sent100 (flagsOn (store w) (getTodayKey env) D)
           then [Notify100 D] else [])
        @ (if blockOnLimit limit \<and> timeLimit limit \<le> timeToday env (store w) D + t
           then blockEffects env D limit else [])"
    by (rule effects_checkLimits [OF lim])
  show "sent80 (flagsOn (store (checkLimits env D t w)) (getTodayKey env) D) =
          (sent80 (flagsOn (store w) (getTodayKey env) D)
           \<or> (notify80 limit
               \<and> real_of_int (timeLimit limit) * 0.8 \<le> real_of_int (timeToday env (store w) D + t)
               \<and> timeToday env (store w) D + t < timeLimit limit))"
    by (auto simp add: flags_checkLimits [OF lim] fires80_def is80Percent_def is100Percent_def
          usage_flags)
  show "sent100 (flagsOn (store (checkLimits env D t w)) (getTodayKey env) D) =
          (sent100 (flagsOn (store w) (getTodayKey env) D)
           \<or> (notify100 limit \<and> timeLimit limit \<le> timeToday env (store w) D + t))"
    by (auto simp add: flags_checkLimits [OF lim] fires100_def is100Percent_def usage_flags)
next
  assume "getLimit D (store w) = None"
  then show "checkLimits env D t w = w" by (simp add: checkLimits_def)
next
  assume a: "(\<forall>op \<in> set ops. opDay op = day)
        \<and> Notify80 D \<notin> set (effects w) \<and> Notify100 D \<notin> set (effects w)"
  then have "sentOnce day D w" by (simp add: sentOnce_def)
  with a have "sentOnce day D (run ops w)" by (simp add: sentOnce_run)
  then show "count_list (effects (run ops w)) (Notify80 D) \<le> 1"
    and "count_list (effects (run ops w)) (Notify100 D) \<le> 1"
    by (auto simp: sentOnce_def split: if_splits)
qed

theorem checkLimits_notifications_witness:
  "effects (checkLimits (envAt 1020000 None) ''example.com'' 0 (worldOf (usedStore 2950000)))
     = [Notify80 ''example.com'']
   \<and> sent80 (flagsOn (store (checkLimits (envAt 1020000 None) ''example.com'' 0
                              (worldOf (usedStore 2950000)))) ''2024-01-08'' ''example.com'')
   \<and> checkLimits (envAt 1020000 None) ''other.org'' 0 (worldOf (usedStore 2950000))
       = worldOf (usedStore 2950000)
   \<and> count_list (effects (run scenarioOps (worldOf (usedStore 2900000))))
        (Notify80 ''example.com'') \<le> 1
   \<and> count_list (effects (run scenarioOps (worldOf (usedStore 2900000))))
        (Notify100 ''example.com'') \<le> 1
   \<and> effects (run scenarioOps (worldOf (usedStore 2900000)))
       = [Notify80 ''example.com'', Notify100 ''example.com'']"
proof -
  have "effects (checkLimits (envAt 1020000 None) ''example.com'' 0
                   (worldOf (usedStore 2950000))) = [Notify80 ''example.com'']
   \<and> sent80 (flagsOn (store (checkLimits (envAt 1020000 None) ''example.com'' 0
                              (worldOf (usedStore 2950000)))) ''2024-01-08'' ''example.com'')
   \<and> checkLimits (envAt 1020000 None) ''other.org'' 0 (worldOf (usedStore 2950000))
       = worldOf (usedStore 2950000)
   \<and> count_list (effects (run scenarioOps (worldOf (usedStore 2900000))))
        (Notify80 ''example.com'') \<le> 1
   \<and> count_list (effects (run scenarioOps (worldOf (usedStore 2900000))))
        (Notify100 ''example.com'') \<le> 1"
    using checkLimits_notifications [of "''example.com''" "worldOf (usedStore 2950000)"
        exampleLimit "envAt 1020000 None" 0 "[]" "''2024-01-08''"]
      checkLimits_notifications [of "''other.org''" "worldOf (usedStore 2950000)"
        exampleLimit "envAt 1020000 None" 0 "[]" "''2024-01-08''"]
      checkLimits_notifications [of "''example.com''" "worldOf (usedStore 2900000)"
        exampleLimit "envAt 1020000 None" 0 scenarioOps "''2024-01-08''"]
    by (simp add: ex_defs scenarioOps_def)
  with scenario_effects show ?thesis by simp
qed

section \<open>Blocking on navigation\<close>

text \<open>
  C8. A session is open on other.org since 1000000 ms and example.com has used up its
  blocking limit. At 1020000 ms the active tab navigates to example.com: the 20000 ms
  of other.org are committed and the tab is redirected to the block page, but the
  blocked return of \<open>startTracking\<close> leaves the stored session as it was, so the tracker
  is still tracking other.org from 1000000 ms. When the block page has loaded, 500 ms
  later, the same interval is committed again: other.org stands at 40500 ms for
  20000 ms of use.
\<close>

theorem blocked_navigation_stale_session:
  "limitReached (envAt 1020000 (Some exampleTab)) staleStore ''example.com''
   \<and> tabResolved (envAt 1020000 (Some exampleTab))
   \<and> effects (onNavigate (envAt 1020000 (Some exampleTab)) ''https://example.com/''
                (worldOf staleStore))
       = [RedirectBlocked 7 ''example.com'' 3600000]
   \<and> sessionOpen (store (onNavigate (envAt 1020000 (Some exampleTab)) ''https://example.com/''
                            (worldOf staleStore)))
   \<and> st_currentUrl (store (onNavigate (envAt 1020000 (Some exampleTab)) ''https://example.com/''
                              (worldOf staleStore))) = Some ''https://other.org/''
   \<and> st_startTime (store (onNavigate (envAt 1020000 (Some exampleTab)) ''https://example.com/''
                             (worldOf staleStore))) = Some 1000000
   \<and> timeToday (envAt 1020000 (Some exampleTab))
        (store (onNavigate (envAt 1020000 (Some exampleTab)) ''https://example.com/''
                  (worldOf staleStore))) ''other.org'' = 20000
   \<and> timeToday (envAt 1020500 (Some blockPageTab))
        (store (onNavigate (envAt 1020500 (Some blockPageTab)) blockPage
                  (onNavigate (envAt 1020000 (Some exampleTab)) ''https://example.com/''
                     (worldOf staleStore)))) ''other.org'' = 40500"
proof -
  let ?e1 = "envAt 1020000 (Some exampleTab)"
  let ?e2 = "envAt 1020500 (Some blockPageTab)"
  let ?saved = "saveTime ?e1 ''other.org'' 20000 [] staleStore"
  let ?w1 = "onNavigate ?e1 ''https://example.com/'' (worldOf staleStore)"
  have sf: "st_currentUrl staleStore = Some ''https://other.org/''"
    "st_startTime staleStore = Some 1000000" "st_favicon staleStore = Some []"
    "getSettings staleStore = DEFAULT_SETTINGS" "whitelistOf staleStore = []"
    "getLimit ''other.org'' staleStore = None"
    "getLimit ''example.com'' staleStore = Some exampleLimit"
    "dayData staleStore ''2024-01-08'' =
       [(''example.com'', \<lparr>time = 3600000, favicon = [], lastVisited = 900000,
                            visitCount = 3, notifications = None\<rparr>)]"
    by (simp_all add: staleStore_def usedStore_def emptyStore_def getSettings_def
          whitelistOf_def getLimit_def dayData_def)
  have tb: "tab_id exampleTab = Some 7"
    by (simp add: exampleTab_def)
  have bp: "getDomain ?e2 blockPage = None"
    by (simp add: getDomain_def blockPage_def blockedPrefixes_def startsWith_def)
  have nt: "\<not> saveTimeThrows (envAt t tab) ''other.org'' dur s" for t tab dur s
    by simp
  have c1: "commitTime ?e1 (worldOf staleStore) = onStore (\<lambda>s. ?saved) (worldOf staleStore)"
    by (simp add: commitTime_def Let_def worldOf_def sf navigation_examples truthyStr_def
          truthyNum_def DEFAULT_SETTINGS_def nt checkLimits_def onStore_def)
  have n1: "\<not> commitTimeThrows ?e1 (worldOf staleStore)"
    by (simp add: commitTimeThrows_def Let_def worldOf_def sf navigation_examples nt)
  have s1: "?saved =
              staleStore\<lparr>days := [(''2024-01-08'',
                  [(''example.com'',
                    \<lparr>time = 3600000, favicon = [], lastVisited = 900000, visitCount = 3,
                     notifications = None\<rparr>),
                   (''other.org'',
                    \<lparr>time = 20000, favicon = [], lastVisited = 1020000, visitCount = 0,
                     notifications = None\<rparr>)])]\<rparr>"
    by (simp add: saveTime_def Let_def sf lookupSite_def timeAdded_def setDay_def)
       (simp add: staleStore_def usedStore_def emptyStore_def)
  have tt: "timeToday (envAt t tab) ?saved ''example.com'' = 3600000"
    "timeToday (envAt t tab) ?saved ''other.org'' = 20000" for t tab
    unfolding s1
    by (simp_all add: timeToday_def siteOn_def dayData_def staleStore_def usedStore_def
          emptyStore_def)
  have w1: "?w1 = emit (RedirectBlocked 7 ''example.com'' 3600000)
                    (onStore (\<lambda>s. ?saved) (worldOf staleStore))"
    unfolding onNavigate_def c1 using n1
    by (simp add: startTracking_def Let_def navigation_examples truthyStr_def
          blockedOnNavigation_def sf usage_time tt exampleLimit_def tb
          truthyNum_def worldOf_def)
  have st: "store ?w1 = ?saved"
    unfolding w1 by simp
  have sv: "st_currentUrl ?saved = Some ''https://other.org/''"
    "st_startTime ?saved = Some 1000000" "st_favicon ?saved = Some []"
    "getSettings ?saved = DEFAULT_SETTINGS" "whitelistOf ?saved = []"
    by (simp_all add: s1 sf getSettings_def whitelistOf_def)
       (simp_all add: staleStore_def usedStore_def emptyStore_def)
  have n2: "\<not> commitTimeThrows ?e2 ?w1"
    by (simp add: commitTimeThrows_def Let_def st sv navigation_examples nt)
  have ri: "\<not> readsInherited (envAt t tab) s k ''other.org''" for t tab s k
    by simp
  have t2: "timeToday ?e2 (store (commitTime ?e2 ?w1)) ''other.org'' = 40500"
    by (simp add: commitTime_def Let_def st sv navigation_examples truthyStr_def truthyNum_def
          DEFAULT_SETTINGS_def nt timeToday_checkLimits timeToday_saveTime ri tt sf)
  have "limitReached ?e1 staleStore ''example.com''"
    by (simp add: limitReached_def sf exampleLimit_def timeToday_def siteOn_def)
  moreover have "tabResolved ?e1"
    by (simp add: tabResolved_def exampleTab_def truthyNum_def)
  moreover have "effects ?w1 = [RedirectBlocked 7 ''example.com'' 3600000]"
    unfolding w1 by (simp add: worldOf_def)
  moreover have "sessionOpen (store ?w1)"
    "st_currentUrl (store ?w1) = Some ''https://other.org/''"
    "st_startTime (store ?w1) = Some 1000000"
    "timeToday ?e1 (store ?w1) ''other.org'' = 20000"
    by (simp_all add: st sv tt sessionOpen_def truthyStr_def truthyNum_def)
  moreover have "timeToday ?e2 (store (onNavigate ?e2 blockPage ?w1)) ''other.org'' = 40500"
  proof -
    have "store (onNavigate ?e2 blockPage ?w1)
            = (store (commitTime ?e2 ?w1))\<lparr>st_currentUrl := None, st_startTime := None,
                                            st_favicon := None\<rparr>"
      using n2 by (simp add: onNavigate_def startTracking_def bp truthyStr_def stopTracking_def)
    then show ?thesis using t2 by (simp add: timeToday_def siteOn_def dayData_def)
  qed
  ultimately show ?thesis by simp
qed

section \<open>The tracking delay setting\<close>

lemma trackingDelayInput_range: "delayInRange (trackingDelayInput v)"
  by (simp add: trackingDelayInput_def delayInRange_def)

lemma persistedDelay_setSettings [simp]: "persistedDelay (setSettings (Some n) th s) = n"
  by (simp add: persistedDelay_def setSettings_def getSettings_def Let_def)

lemma dashOk_step: "dashOk x \<Longrightarrow> dashOk (dashStep e x)"
proof (cases x)
  case (Pair d s)
  assume ok: "dashOk x"
  show ?thesis
  proof (cases e)
    case FetchSettings
    with ok Pair show ?thesis by (simp add: dashOk_def Let_def persistedDelay_def)
  next
    case (DelayChanged v)
    with ok Pair show ?thesis by (simp add: dashOk_def trackingDelayInput_range)
  next
    case SaveClicked
    with ok Pair show ?thesis by (simp add: dashOk_def)
  next
    case (ThemeChanged themeId)
    with ok Pair show ?thesis by (simp add: dashOk_def)
  qed
qed

lemma dashOk_run: "dashOk x \<Longrightarrow> dashOk (dashRun es x)"
  by (induction es arbitrary: x) (simp_all add: dashOk_step)

text \<open>
  What holds of every text of the field: the value the page keeps lies in [1, 100];
  when \<open>parseInt\<close> reads a number above 100 it becomes 100, below 1 it becomes 1; saving
  always writes the settings, with that value; and from the initial page state and a
  store whose delay (stored, or the default 15) is in [1, 100], the persisted delay is
  in [1, 100] after every sequence of page events.
\<close>

lemma settings_delay_range:
  "delayInRange (trackingDelayInput v)
   \<and> (parseInt v = Some n \<and> 100 < n \<longrightarrow> trackingDelayInput v = 100)
   \<and> (parseInt v = Some n \<and> n < 1 \<longrightarrow> trackingDelayInput v = 1)
   \<and> settings (snd (dashRun [DelayChanged v, SaveClicked] (d, s)))
        = Some \<lparr>trackingDelaySeconds = trackingDelayInput v, theme = currentThemeId d\<rparr>
   \<and> (delayInRange (persistedDelay s) \<longrightarrow>
         delayInRange (persistedDelay (snd (dashRun es (initialDashboard, s)))))"
proof -
  have "dashOk (dashRun es (initialDashboard, s))" if "delayInRange (persistedDelay s)"
    using that by (intro dashOk_run) (simp add: dashOk_def initialDashboard_def delayInRange_def)
  then show ?thesis
    using trackingDelayInput_range [of v]
    by (auto simp add: dashOk_def setSettings_def Let_def trackingDelayInput_def)
qed

text \<open>
  C9. The text \<open>25e1\<close> is a value of the number field and stands for 250, outside
  [1, 100]. \<open>parseInt\<close> reads its leading digits only, so the field keeps 25 and Save
  stores 25, not the boundary 100. In the same way \<open>1e5\<close> (100000) is stored as 1.
\<close>

theorem settings_delay_exponent:
  "fieldNumber ''25e1'' = Some 250
   \<and> trackingDelayInput ''25e1'' = 25
   \<and> persistedDelay (snd (dashRun [DelayChanged ''25e1'', SaveClicked]
                              (initialDashboard, emptyStore))) = 25
   \<and> fieldNumber ''1e5'' = Some 100000
   \<and> trackingDelayInput ''1e5'' = 1"
proof -
  have p: "parseInt ''25e1'' = Some 25" "parseInt ''1e5'' = Some 1"
    by (simp_all add: parseInt_def isWhiteSpace_def isDigitOf_def digitValue_def digitsValue_def)
  have f: "fieldNumber ''25e1'' = Some 250" "fieldNumber ''1e5'' = Some 100000"
    by (simp_all add: fieldNumber_def isExponentMark_def isDigit_def numberOf_def Let_def)
  from p f show ?thesis by (simp add: trackingDelayInput_def)
qed

section \<open>Range filter of the aggregation\<close>




section \<open>Heat-map intensity\<close>



section \<open>Trend against the previous period\<close>

lemma la_windows:
  "trendDaysDiff 1730678400000 1730678400000 = 1"
  "trendPrevEnd laEnv 1730678400000 = 1730588400000"
  "trendPrevStart laEnv 1730678400000 1730678400000 = 1730588400000"
  by (simp_all add: trendDaysDiff_def ceilDiv_def trendPrevEnd_def trendPrevStart_def
        laEnv_def laSetDate_def laOffset_def Let_def)

text \<open>
  C7. In America/Los_Angeles, for the one-day window 2024-11-04 to 2024-11-04
  (\<open>start = end = 1730678400000\<close>, the UTC midnight of 2024-11-04): the day before
  \<open>start\<close> is 2024-11-03, whose key has the instant \<open>start - 1\<close> day and holds 10000 ms
  of example.com, against 30000 ms in the window, a change of 200 percent. The code's
  \<open>setDate\<close> crosses the end of daylight-saving time and puts both ends of the previous
  window at \<open>start\<close> minus 25 hours, so no key falls into it and the change returned
  is 0.
\<close>

theorem trend_daylight_saving:
  "trendPrevEnd laEnv 1730678400000 = 1730678400000 - 25 * 3600000
   \<and> trendPrevStart laEnv 1730678400000 1730678400000 = 1730678400000 - 25 * 3600000
   \<and> dateKeyTime ''2024-11-03'' = Some (1730678400000 - 1 * dayMs)
   \<and> windowTotal time laStore ''example.com''
        (1730678400000 - 1 * dayMs) (1730678400000 - 1 * dayMs) = 10000
   \<and> percentChange 30000 10000 = 200
   \<and> (\<exists>m. getTrendMetrics ''example.com'' laEnv 1730678400000 1730678400000 laStore = Result m
          \<and> tm_totalDays m = 1 \<and> tm_totalTime m = 30000 \<and> tm_timeChange m = 0)"
proof -
  have p: "protoMember laEnv ''example.com'' = NoMember"
    by (simp add: laEnv_def)
  have w: "windowTotal time laStore ''example.com'' 1730678400000 1730678400000 = 30000"
    "windowTotal time laStore ''example.com'' 1730588400000 1730588400000 = 0"
    "windowTotal time laStore ''example.com'' 1730592000000 1730592000000 = 10000"
    by (simp_all add: windowTotal_def laStore_def emptyStore_def key_times inWindow_def
          siteField_def siteOn_def dayData_def isDateKey_def isDigit_def)
  have "\<exists>m. getTrendMetrics ''example.com'' laEnv 1730678400000 1730678400000 laStore = Result m
          \<and> tm_totalDays m = 1 \<and> tm_totalTime m = 30000 \<and> tm_timeChange m = 0"
    by (simp add: getTrendMetrics_def Let_def trendLoop_totals [OF p] la_windows w
          percentChange_def)
  then show ?thesis
    by (simp add: la_windows key_times dayMs_def w percentChange_def)
qed

end
